theory Spec2Isabelle
  imports Main
begin

section \<open>Python built-ins used by \<open>owslib/feature/__init__.py\<close>\<close>

text \<open>
  A Python \<open>str\<close> is a \<open>string\<close>: the list of the bytes of its UTF-8 encoding. The
  operations below that look at single characters (\<open>lower\<close>, \<open>int\<close>, indexing a
  \<open>str\<close>) are those of Python on ASCII text; \<open>quote_plus\<close> works on the UTF-8 bytes
  in Python as well. Exceptions are values of the type \<open>error\<close>, and a function that can
  raise returns \<open>error + 'a\<close>, with \<open>Inl\<close> for the exception.
\<close>

datatype error =
  KeyError | IndexError | TypeError | AttributeError | ValueError
  | StopIteration | UnboundLocalError | CrsError

text \<open>Sequencing of two steps, the first of which may raise.\<close>

definition bind :: "error + 'a \<Rightarrow> ('a \<Rightarrow> error + 'b) \<Rightarrow> error + 'b" where
  "bind m f = (case m of Inl e \<Rightarrow> Inl e | Inr x \<Rightarrow> f x)"

text \<open>\<open>str.lower()\<close>.\<close>

definition lower_char :: "char \<Rightarrow> char" where
  "lower_char c =
     (case map_of (zip ''ABCDEFGHIJKLMNOPQRSTUVWXYZ'' ''abcdefghijklmnopqrstuvwxyz'') c of
        Some d \<Rightarrow> d
      | None \<Rightarrow> c)"

definition lower :: "string \<Rightarrow> string" where
  "lower s = map lower_char s"

text \<open>\<open>s.endswith("?")\<close> for a one-character suffix.\<close>

definition endswith :: "string \<Rightarrow> char \<Rightarrow> bool" where
  "endswith s c = (case rev s of [] \<Rightarrow> False | d # _ \<Rightarrow> d = c)"

text \<open>\<open>sep.join(xs)\<close>.\<close>

fun join :: "string \<Rightarrow> string list \<Rightarrow> string" where
  "join sep [] = []"
| "join sep [x] = x"
| "join sep (x # y # ys) = x @ sep @ join sep (y # ys)"

text \<open>\<open>s.split(sep)\<close> for a one-character separator: the result is never empty.\<close>

fun split :: "string \<Rightarrow> char \<Rightarrow> string list" where
  "split [] sep = [[]]"
| "split (c # cs) sep =
     (if c = sep then [] # split cs sep
      else (case split cs sep of [] \<Rightarrow> [[c]] | w # ws \<Rightarrow> (c # w) # ws))"

text \<open>
  \<open>int(s)\<close> on a \<open>str\<close>: surrounding white space is dropped, one sign is allowed, and the
  rest must be decimal digits, with single underscores allowed between two digits.
  Anything else raises \<open>ValueError\<close>.
\<close>

definition is_space :: "char \<Rightarrow> bool" where
  "is_space c = (c \<in> set [CHR 0x09, CHR 0x0A, CHR 0x0B, CHR 0x0C, CHR 0x0D,
                           CHR 0x1C, CHR 0x1D, CHR 0x1E, CHR 0x1F, CHR 0x20])"

definition strip :: "string \<Rightarrow> string" where
  "strip s = rev (dropWhile is_space (rev (dropWhile is_space s)))"

definition digit_val :: "char \<Rightarrow> nat option" where
  "digit_val c = map_of (zip ''0123456789'' [0, 1, 2, 3, 4, 5, 6, 7, 8, 9]) c"

fun int_digits :: "nat \<Rightarrow> string \<Rightarrow> nat option" where
  "int_digits acc [] = Some acc"
| "int_digits acc (c # cs) =
     (case digit_val c of
        Some d \<Rightarrow> int_digits (acc * 10 + d) cs
      | None \<Rightarrow>
          if c = CHR ''_'' then
            (case cs of
               [] \<Rightarrow> None
             | d # _ \<Rightarrow> if digit_val d = None then None else int_digits acc cs)
          else None)"

definition int_unsigned :: "string \<Rightarrow> nat option" where
  "int_unsigned s =
     (case s of
        [] \<Rightarrow> None
      | c # _ \<Rightarrow> if digit_val c = None then None else int_digits 0 s)"

definition py_int :: "string \<Rightarrow> error + int" where
  "py_int s =
     (let t = strip s;
          (neg, ds) = (case t of
                         [] \<Rightarrow> (False, [])
                       | c # cs \<Rightarrow>
                           if c = CHR ''-'' then (True, cs)
                           else if c = CHR ''+'' then (False, cs)
                           else (False, t))
      in case int_unsigned ds of
           None \<Rightarrow> Inl ValueError
         | Some n \<Rightarrow> Inr (if neg then - int n else int n))"

text \<open>\<open>str(n)\<close> for an \<open>int\<close> (Python's integers are unbounded).\<close>

definition digit_char :: "nat \<Rightarrow> char" where
  "digit_char n = ''0123456789ABCDEF'' ! n"

fun str_nat :: "nat \<Rightarrow> string" where
  "str_nat n =
     (if n < 10 then [digit_char n] else str_nat (n div 10) @ [digit_char (n mod 10)])"

declare str_nat.simps [simp del]

definition str_int :: "int \<Rightarrow> string" where
  "str_int i = (if i < 0 then CHR ''-'' # str_nat (nat (- i)) else str_nat (nat i))"

text \<open>
  \<open>urllib.parse.quote_plus(s)\<close> with the default \<open>safe=''\<close>: letters, digits and
  \<open>_.-~\<close> stay, a space becomes \<open>+\<close>, every other byte of the UTF-8 encoding becomes
  \<open>%XX\<close> in upper-case hexadecimal.
\<close>

definition quote_byte :: "char \<Rightarrow> string" where
  "quote_byte c =
     (if c \<in> set ''ABCDEFGHIJKLMNOPQRSTUVWXYZabcdefghijklmnopqrstuvwxyz0123456789_.-~''
      then [c]
      else if c = CHR '' '' then ''+''
      else [CHR ''%'', digit_char (of_char c div 16), digit_char (of_char c mod 16)])"

definition quote_plus :: "string \<Rightarrow> string" where
  "quote_plus s = concat (map quote_byte s)"

text \<open>
  A \<open>dict\<close> keeps its keys in insertion order, and assigning to a key that is present
  replaces the value in place: an association list with \<open>dict_set\<close> for
  \<open>d[k] = v\<close>.
\<close>

type_synonym 'a dict = "(string \<times> 'a) list"

fun dict_set :: "string \<Rightarrow> 'a \<Rightarrow> 'a dict \<Rightarrow> 'a dict" where
  "dict_set k v [] = [(k, v)]"
| "dict_set k v ((k', v') # d) =
     (if k' = k then (k', v) # d else (k', v') # dict_set k v d)"

definition dict_get :: "'a dict \<Rightarrow> string \<Rightarrow> 'a option" where
  "dict_get d k = map_of d k"

definition keys :: "'a dict \<Rightarrow> string list" where
  "keys d = map fst d"

text \<open>
  The values that reach \<open>urlencode\<close>: a \<open>str\<close>, a sequence (an object with a length,
  whose items are rendered by \<open>str()\<close>), or any other object, rendered by \<open>str()\<close>.
  The type \<open>'v\<close> stands for the Python objects the caller passes in; how \<open>str()\<close> renders
  them is \<open>py_str\<close> below.
\<close>

datatype 'v py_value = Str string | Seq "'v list" | Other 'v

text \<open>
  \<open>urllib.parse.urlencode(query, doseq=True)\<close>: one \<open>key=value\<close> per entry, a sequence
  giving one \<open>key=item\<close> per item, joined by \<open>&\<close>.
\<close>

definition urlencode_item :: "('v \<Rightarrow> string) \<Rightarrow> string \<times> 'v py_value \<Rightarrow> string list" where
  "urlencode_item str kv =
     (let k = quote_plus (fst kv)
      in case snd kv of
           Str s \<Rightarrow> [k @ ''='' @ quote_plus s]
         | Other x \<Rightarrow> [k @ ''='' @ quote_plus (str x)]
         | Seq xs \<Rightarrow> map (\<lambda>elt. k @ ''='' @ quote_plus (str elt)) xs)"

definition urlencode :: "('v \<Rightarrow> string) \<Rightarrow> 'v py_value dict \<Rightarrow> string" where
  "urlencode str query = join ''&'' (concat (map (urlencode_item str) query))"

section \<open>The collaborators of the feature module\<close>

text \<open>
  The class \<open>Crs\<close> is defined in \<open>owslib.crs\<close>. The feature module reads the attributes
  \<open>id\<close>, \<open>encoding\<close> and \<open>axisorder\<close> of a \<open>Crs\<close> object, calls its methods
  \<open>getcode()\<close> and \<open>getcodeurn()\<close>, and compares two objects with \<open>==\<close>. A \<open>Crs\<close>
  object is the record of these observations (\<open>crs_id\<close> is the attribute \<open>id\<close>,
  \<open>getcode\<close> and \<open>getcodeurn\<close> are what the two methods return); the constructor
  \<open>Crs(...)\<close>, which may raise, and the comparison are parameters, as are \<open>str()\<close> on
  the caller's objects and the serialisation of a POST document
  (\<open>owslib.feature.postrequest\<close>).
\<close>

record crs =
  crs_id :: string
  encoding :: string
  axisorder :: string
  getcode :: string
  getcodeurn :: string

text \<open>
  A POST document (\<open>PostRequest_2_0_0\<close>) is the sequence of the calls made on it, in
  order; \<open>to_string\<close> serialises it.
\<close>

datatype 'v post_call =
  Create_query string
  | Set_featureid "string list"
  | Set_bbox "'v list"
  | Set_filter string
  | Set_maxfeatures int
  | Set_outputformat string
  | Set_startindex int
  | Set_propertyname "string list"
  | Set_sortby "string list"

record 'v externals =
  py_str :: "'v \<Rightarrow> string"
  Crs :: "'v \<Rightarrow> error + crs"
  crs_eq :: "crs \<Rightarrow> crs \<Rightarrow> bool"
  to_string :: "'v post_call list \<Rightarrow> string"

text \<open>
  The state of a \<open>WebFeatureService_\<close> object that the module reads: the protocol
  version, the capability contents (feature type name to its metadata) and the method
  \<open>getOperationByName\<close> of the concrete service classes, which returns the metadata
  of an operation or raises. An entry of \<open>methods\<close> is a \<open>dict\<close> with the keys
  \<open>type\<close> and \<open>url\<close>.
\<close>

record content_metadata =
  crsOptions :: "crs list"

record operation_metadata =
  methods :: "(string \<Rightarrow> string option) list"

record wfs =
  version :: string
  contents :: "string \<Rightarrow> content_metadata option"
  getOperationByName :: "string \<Rightarrow> error + operation_metadata"

text \<open>
  The argument \<open>typename\<close> is \<open>None\<close>, a \<open>str\<close> or a list of \<open>str\<close>; the code tests
  it for truth, indexes it and asks \<open>isinstance(typename, str)\<close>.
\<close>

datatype typename_arg = TNone | TStr string | TList "string list"

fun typename_truthy :: "typename_arg \<Rightarrow> bool" where
  "typename_truthy TNone = False"
| "typename_truthy (TStr s) = (s \<noteq> [])"
| "typename_truthy (TList xs) = (xs \<noteq> [])"

text \<open>\<open>typename[0]\<close>.\<close>

fun typename_first :: "typename_arg \<Rightarrow> error + string" where
  "typename_first TNone = Inl TypeError"
| "typename_first (TStr []) = Inl IndexError"
| "typename_first (TStr (c # _)) = Inr [c]"
| "typename_first (TList []) = Inl IndexError"
| "typename_first (TList (x # _)) = Inr x"

text \<open>\<open>[typename] if isinstance(typename, str) else typename\<close>, for a true \<open>typename\<close>.\<close>

fun typename_list :: "typename_arg \<Rightarrow> string list" where
  "typename_list TNone = []"
| "typename_list (TStr s) = [s]"
| "typename_list (TList xs) = xs"

text \<open>Truth of an optional list, string or integer argument.\<close>

fun truthy_list :: "'a list option \<Rightarrow> bool" where
  "truthy_list None = False"
| "truthy_list (Some xs) = (xs \<noteq> [])"

fun truthy_int :: "int option \<Rightarrow> bool" where
  "truthy_int None = False"
| "truthy_int (Some n) = (n \<noteq> 0)"

text \<open>
  The keyword arguments of \<open>getGETGetFeatureRequest\<close> and
  \<open>getPOSTGetFeatureRequest\<close>, with the types of the docstring: \<open>None\<close> is \<open>None\<close>.
  The arguments \<open>filter\<close> and \<open>method\<close> are the fields \<open>filter_arg\<close> and
  \<open>http_method\<close>.
\<close>

record 'v getfeature_args =
  typename :: typename_arg
  filter_arg :: "string option"
  bbox :: "'v list option"
  featureid :: "string list option"
  featureversion :: "string option"
  propertyname :: "string list option"
  maxfeatures :: "int option"
  storedQueryID :: "string option"
  storedQueryParams :: "'v py_value dict option"
  outputFormat :: "string option"
  http_method :: string
  startindex :: "int option"
  sortby :: "string list option"

text \<open>The defaults of the two signatures: everything \<open>None\<close>, \<open>method\<close> apart.\<close>

definition default_args :: "string \<Rightarrow> 'v getfeature_args" where
  "default_args m =
     \<lparr> typename = TNone, filter_arg = None, bbox = None, featureid = None,
       featureversion = None, propertyname = None, maxfeatures = None,
       storedQueryID = None, storedQueryParams = None, outputFormat = None,
       http_method = m, startindex = None, sortby = None \<rparr>"

section \<open>\<open>WebFeatureService_\<close>\<close>

subsection \<open>\<open>getBBOXKVP\<close>\<close>

text \<open>\<open>"%s,%s,%s,%s,%s" % (a, b, c, d, e)\<close> on rendered arguments.\<close>

definition fmt5 :: "string \<Rightarrow> string \<Rightarrow> string \<Rightarrow> string \<Rightarrow> string \<Rightarrow> string" where
  "fmt5 a b c d e = a @ '','' @ b @ '','' @ c @ '','' @ d @ '','' @ e"

text \<open>Lines 35 to 42: the CRS of the box, its fifth element or the default.\<close>

definition bbox_srs :: "'v externals \<Rightarrow> wfs \<Rightarrow> 'v list \<Rightarrow> typename_arg \<Rightarrow> error + crs" where
  "bbox_srs E self b t =
     (if length b = 5 then Crs E (b ! 4)
      else bind (typename_first t) (\<lambda>name.
           case contents self name of
             None \<Rightarrow> Inl KeyError
           | Some ft \<Rightarrow>
               (case crsOptions ft of
                  [] \<Rightarrow> Inl IndexError
                | c # _ \<Rightarrow> Inr c)))"

text \<open>
  Lines 44 to 81. Every branch reads \<open>bbox[0]\<close> to \<open>bbox[3]\<close>, so a box of fewer than
  four elements raises \<open>IndexError\<close> in each of them.
\<close>

definition getBBOXKVP :: "'v externals \<Rightarrow> wfs \<Rightarrow> 'v list \<Rightarrow> typename_arg \<Rightarrow> error + string" where
  "getBBOXKVP E self b t =
     bind (bbox_srs E self b t) (\<lambda>srs.
       if length b < 4 then Inl IndexError
       else if version self \<in> set [''1.1.0'', ''2.0.0''] then
         (if encoding srs = ''urn'' then
            (if axisorder srs = ''yx'' then
               Inr (fmt5 (py_str E (b ! 1)) (py_str E (b ! 0))
                         (py_str E (b ! 3)) (py_str E (b ! 2)) (getcodeurn srs))
             else
               Inr (fmt5 (py_str E (b ! 0)) (py_str E (b ! 1))
                         (py_str E (b ! 2)) (py_str E (b ! 3)) (getcodeurn srs)))
          else
            Inr (fmt5 (py_str E (b ! 0)) (py_str E (b ! 1))
                      (py_str E (b ! 2)) (py_str E (b ! 3)) (getcode srs)))
       else
         Inr (fmt5 (py_str E (b ! 0)) (py_str E (b ! 1))
                   (py_str E (b ! 2)) (py_str E (b ! 3)) (getcode srs)))"

subsection \<open>\<open>create_post_request\<close>\<close>

text \<open>
  Lines 83 to 86: a fresh \<open>PostRequest_2_0_0\<close>, on which nothing has been called yet,
  for the versions 2.0 and 2.0.0; the function has no other branch, so it returns
  \<open>None\<close> for every other version.
\<close>

definition create_post_request :: "wfs \<Rightarrow> 'v post_call list option" where
  "create_post_request self =
     (if version self \<in> set [''2.0'', ''2.0.0''] then Some [] else None)"

subsection \<open>\<open>getSRS\<close>\<close>

text \<open>
  \<open>xs.index(x)\<close>: the position of the first item that compares equal to \<open>x\<close>,
  \<open>None\<close> standing for the \<open>ValueError\<close> that \<open>getSRS\<close> catches.
\<close>

fun list_index :: "('a \<Rightarrow> 'a \<Rightarrow> bool) \<Rightarrow> 'a list \<Rightarrow> 'a \<Rightarrow> nat option" where
  "list_index eq [] x = None"
| "list_index eq (y # ys) x =
     (if eq y x then Some 0 else map_option Suc (list_index eq ys x))"

text \<open>
  A record of the \<open>logging\<close> module: the level is always \<open>warning\<close> here, so a record
  is the message with its arguments, which \<open>logging\<close> keeps apart.
\<close>

type_synonym log_record = "string \<times> string list"

text \<open>The argument \<open>srsname\<close>: a \<open>Crs\<close> object, or anything else.\<close>

datatype 'v srsname_arg = A_Crs crs | A_Raw 'v

text \<open>Lines 94 to 97: \<open>srsname\<close> itself when it is a \<open>Crs\<close>, \<open>Crs(srsname)\<close> otherwise.\<close>

definition as_crs :: "'v externals \<Rightarrow> 'v srsname_arg \<Rightarrow> error + crs" where
  "as_crs E srsname = (case srsname of A_Crs c \<Rightarrow> Inr c | A_Raw v \<Rightarrow> Crs E v)"

text \<open>
  Lines 88 to 114. The result is the log written and the value returned or the
  exception raised; only \<open>ValueError\<close> is caught.
\<close>

definition getSRS ::
  "'v externals \<Rightarrow> wfs \<Rightarrow> 'v srsname_arg \<Rightarrow> string \<Rightarrow> log_record list \<times> (error + crs option)"
where
  "getSRS E self srsname t =
     (case as_crs E srsname of
        Inl e \<Rightarrow> ([], Inl e)
      | Inr srs \<Rightarrow>
          (case contents self t of
             None \<Rightarrow> ([], Inl KeyError)
           | Some ft \<Rightarrow>
               (case list_index (crs_eq E) (crsOptions ft) srs of
                  Some index \<Rightarrow> ([], Inr (Some (crsOptions ft ! index)))
                | None \<Rightarrow>
                    (let options = join '', '' (map crs_id (crsOptions ft))
                     in ([(''Requested srsName %r is not declared as being '' @
                           ''allowed for requested typename %r. '' @
                           ''Options are: %r.'',
                           [getcode srs, t, options])],
                         Inr None)))))"

subsection \<open>The endpoint of \<open>GetFeature\<close>\<close>

text \<open>
  Lines 167 to 173 and 275 to 281, the same text in both builders: \<open>next\<close> of the
  generator of \<open>m.get("url")\<close> over the methods whose \<open>m.get("type").lower()\<close> is
  \<open>method.lower()\<close>. \<open>m.get\<close> gives \<open>None\<close> for a missing key, so a method without
  \<open>type\<close> raises \<open>AttributeError\<close> when the generator reaches it, and an exhausted
  generator raises \<open>StopIteration\<close>.
\<close>

fun next_url :: "(string \<Rightarrow> string option) list \<Rightarrow> string \<Rightarrow> error + string option" where
  "next_url [] method = Inl StopIteration"
| "next_url (m # ms) method =
     (case m ''type'' of
        None \<Rightarrow> Inl AttributeError
      | Some ty \<Rightarrow> if lower ty = lower method then Inr (m ''url'') else next_url ms method)"

definition getfeature_url :: "wfs \<Rightarrow> string \<Rightarrow> error + string option" where
  "getfeature_url self method =
     bind (getOperationByName self ''GetFeature'') (\<lambda>operation.
       next_url (methods operation) method)"

subsection \<open>\<open>getGETGetFeatureRequest\<close>\<close>

text \<open>\<open>int(self.version.split(".")[0])\<close>.\<close>

definition major_version :: "wfs \<Rightarrow> error + int" where
  "major_version self =
     (case split (version self) CHR ''.'' of
        [] \<Rightarrow> Inl IndexError
      | x # _ \<Rightarrow> py_int x)"

text \<open>
  Lines 176 to 211 build the \<open>request\<close> dictionary, one statement after the other.
  Lines 179 to 184, the selector: \<open>getBBOXKVP\<close> receives \<open>typename\<close> as the caller
  gave it, before line 186 wraps a \<open>str\<close> into a list.
\<close>

definition request_selector ::
  "'v externals \<Rightarrow> wfs \<Rightarrow> 'v getfeature_args \<Rightarrow> 'v py_value dict \<Rightarrow> error + 'v py_value dict"
where
  "request_selector E self a request =
     (if truthy_list (featureid a) then
        Inr (dict_set ''featureid'' (Str (join '','' (the (featureid a)))) request)
      else if truthy_list (bbox a) then
        bind (getBBOXKVP E self (the (bbox a)) (typename a)) (\<lambda>kvp.
          Inr (dict_set ''bbox'' (Str kvp) request))
      else if truthy_list (filter_arg a) then
        Inr (dict_set ''query'' (Str (the (filter_arg a))) request)
      else Inr request)"

text \<open>Lines 185 to 192, the feature types.\<close>

definition request_typename ::
  "wfs \<Rightarrow> 'v getfeature_args \<Rightarrow> 'v py_value dict \<Rightarrow> error + 'v py_value dict"
where
  "request_typename self a request =
     (if typename_truthy (typename a) then
        bind (major_version self) (\<lambda>major.
          if major \<ge> 2 then
            Inr (dict_set ''typenames'' (Str (join '','' (typename_list (typename a)))) request)
          else
            Inr (dict_set ''typename'' (Str (join '','' (typename_list (typename a)))) request))
      else Inr request)"

text \<open>Lines 193 to 198: \<open>propertyname\<close>, \<open>sortby\<close> and \<open>featureversion\<close>.\<close>

definition request_properties :: "'v getfeature_args \<Rightarrow> 'v py_value dict \<Rightarrow> 'v py_value dict" where
  "request_properties a request =
     (let request = (if truthy_list (propertyname a) then
                       dict_set ''propertyname'' (Str (join '','' (the (propertyname a)))) request
                     else request);
          request = (if truthy_list (sortby a) then
                       dict_set ''sortby'' (Str (join '','' (the (sortby a)))) request
                     else request);
          request = (if truthy_list (featureversion a) then
                       dict_set ''featureversion'' (Str (the (featureversion a))) request
                     else request)
      in request)"

text \<open>Lines 199 to 203, \<open>maxfeatures\<close>.\<close>

definition request_maxfeatures ::
  "wfs \<Rightarrow> 'v getfeature_args \<Rightarrow> 'v py_value dict \<Rightarrow> error + 'v py_value dict"
where
  "request_maxfeatures self a request =
     (if truthy_int (maxfeatures a) then
        bind (major_version self) (\<lambda>major.
          if major \<ge> 2 then
            Inr (dict_set ''count'' (Str (str_int (the (maxfeatures a)))) request)
          else
            Inr (dict_set ''maxfeatures'' (Str (str_int (the (maxfeatures a)))) request))
      else Inr request)"

text \<open>
  Lines 204 to 211: \<open>startindex\<close>, the stored query with its parameters (line 165
  replaces a false \<open>storedQueryParams\<close> by the empty dictionary) and \<open>outputFormat\<close>.
\<close>

definition request_paging :: "'v getfeature_args \<Rightarrow> 'v py_value dict \<Rightarrow> 'v py_value dict" where
  "request_paging a request =
     (let storedQueryParams' = (case storedQueryParams a of None \<Rightarrow> [] | Some d \<Rightarrow> d);
          request = (if truthy_int (startindex a) then
                       dict_set ''startindex'' (Str (str_int (the (startindex a)))) request
                     else request);
          request = (if truthy_list (storedQueryID a) then
                       fold (\<lambda>param. dict_set (fst param) (snd param)) storedQueryParams'
                         (dict_set ''storedQuery_id'' (Str (the (storedQueryID a))) request)
                     else request);
          request = (if outputFormat a \<noteq> None then
                       dict_set ''outputFormat'' (Str (the (outputFormat a))) request
                     else request)
      in request)"

text \<open>
  The keys that lines 206 to 209 merge into the request: those of \<open>storedQueryParams\<close>,
  when \<open>storedQueryID\<close> is true.
\<close>

definition stored_query_keys :: "'v getfeature_args \<Rightarrow> string set" where
  "stored_query_keys a =
     (if truthy_list (storedQueryID a) then
        (case storedQueryParams a of None \<Rightarrow> {} | Some d \<Rightarrow> set (keys d))
      else {})"

text \<open>Lines 176 to 211 as a whole.\<close>

definition getfeature_request ::
  "'v externals \<Rightarrow> wfs \<Rightarrow> 'v getfeature_args \<Rightarrow> error + 'v py_value dict"
where
  "getfeature_request E self a =
     (let request = [(''service'', Str ''WFS''), (''version'', Str (version self)),
                     (''request'', Str ''GetFeature'')]
      in
      bind (request_selector E self a request) (\<lambda>request.
      bind (request_typename self a request) (\<lambda>request.
      bind (request_maxfeatures self a (request_properties a request)) (\<lambda>request.
      Inr (request_paging a request)))))"

text \<open>
  Lines 165 to 215. \<open>base_url\<close> is \<open>None\<close> when the method chosen has no \<open>url\<close>, and
  \<open>None.endswith\<close> raises \<open>AttributeError\<close>.
\<close>

definition getGETGetFeatureRequest ::
  "'v externals \<Rightarrow> wfs \<Rightarrow> 'v getfeature_args \<Rightarrow> error + string"
where
  "getGETGetFeatureRequest E self a =
     bind (getfeature_url self (http_method a)) (\<lambda>base_url.
     bind (case base_url of
             None \<Rightarrow> Inl AttributeError
           | Some u \<Rightarrow> Inr (if endswith u CHR ''?'' then u else u @ ''?'')) (\<lambda>base_url.
     bind (getfeature_request E self a) (\<lambda>request.
     let data = urlencode (py_str E) request
     in Inr (base_url @ data))))"

subsection \<open>\<open>getPOSTGetFeatureRequest\<close>\<close>

text \<open>
  The result of the POST builder: the log written, the document built
  (\<open>None\<close> when \<open>PostRequest_2_0_0\<close> was never instantiated, otherwise the calls made
  on it), and the pair returned or the exception raised.
\<close>

record 'v post_result =
  log :: "log_record list"
  document :: "'v post_call list option"
  outcome :: "error + string \<times> string"

text \<open>Lines 267 to 273: the warnings for the arguments the POST builder ignores.\<close>

definition post_warnings :: "'v getfeature_args \<Rightarrow> log_record list" where
  "post_warnings a =
     (if truthy_list (featureversion a) then
        [(''Use of the featureversion argument is not yet implemented with the Post method'', [])]
      else []) @
     (if truthy_list (storedQueryID a) then
        [(''Use of the storedQueryID argument is not yet implemented with the Post method'', [])]
      else []) @
     (if truthy_list (storedQueryParams a) then
        [(''Use of the storedQueryParams argument is not yet implemented with the Post method'', [])]
      else [])"

text \<open>Lines 294 to 312: the calls made on the document \<open>request\<close>, in order.\<close>

definition post_document ::
  "'v getfeature_args \<Rightarrow> string \<Rightarrow> 'v post_call list \<Rightarrow> 'v post_call list"
where
  "post_document a typenames request =
     (let request = request @ [Create_query typenames];
          request = (if truthy_list (featureid a) then
                       request @ [Set_featureid (the (featureid a))]
                     else if truthy_list (bbox a) then
                       request @ [Set_bbox (the (bbox a))]
                     else if truthy_list (filter_arg a) then
                       request @ [Set_filter (the (filter_arg a))]
                     else request);
          request = (if truthy_int (maxfeatures a) then
                       request @ [Set_maxfeatures (the (maxfeatures a))]
                     else request);
          request = (if truthy_list (outputFormat a) then
                       request @ [Set_outputformat (the (outputFormat a))]
                     else request);
          request = (if truthy_int (startindex a) then
                       request @ [Set_startindex (the (startindex a))]
                     else request);
          request = (if truthy_list (propertyname a) then
                       request @ [Set_propertyname (the (propertyname a))]
                     else request);
          request = (if truthy_list (sortby a) then
                       request @ [Set_sortby (the (sortby a))]
                     else request)
      in request)"

text \<open>
  Lines 267 to 316. When \<open>typename\<close> is false, line 291 does not run and the local
  \<open>typenames\<close> stays unbound: line 294 then raises \<open>UnboundLocalError\<close>, after the
  attribute \<open>create_query\<close> has been looked up on \<open>request\<close>, which raises
  \<open>AttributeError\<close> first when \<open>request\<close> is \<open>None\<close>. \<open>base_url\<close> is \<open>None\<close> when
  the method chosen has no \<open>url\<close>, as in the GET builder.
\<close>

definition getPOSTGetFeatureRequest ::
  "'v externals \<Rightarrow> wfs \<Rightarrow> 'v getfeature_args \<Rightarrow> 'v post_result"
where
  "getPOSTGetFeatureRequest E self a =
     (case bind (getfeature_url self (http_method a)) (\<lambda>base_url.
             case base_url of
               None \<Rightarrow> Inl AttributeError
             | Some u \<Rightarrow> Inr (if \<not> endswith u CHR ''?'' then u else butlast u)) of
        Inl e \<Rightarrow> \<lparr> log = post_warnings a, document = None, outcome = Inl e \<rparr>
      | Inr base_url \<Rightarrow>
          if \<not> typename_truthy (typename a) \<and> truthy_list (filter_arg a) then
            \<lparr> log = post_warnings a, document = None,
              outcome = Inr (base_url, the (filter_arg a)) \<rparr>
          else
            (case create_post_request self of
               None \<Rightarrow>
                 \<lparr> log = post_warnings a, document = None, outcome = Inl AttributeError \<rparr>
             | Some request \<Rightarrow>
                 if \<not> typename_truthy (typename a) then
                   \<lparr> log = post_warnings a, document = Some request,
                     outcome = Inl UnboundLocalError \<rparr>
                 else
                   (let typenames = join '','' (typename_list (typename a));
                        request = post_document a typenames request;
                        data = to_string E request
                    in \<lparr> log = post_warnings a, document = Some request,
                         outcome = Inr (base_url, data) \<rparr>)))"

text \<open>The three selector setters of a POST document.\<close>

fun is_selector :: "'v post_call \<Rightarrow> bool" where
  "is_selector (Set_featureid _) = True"
| "is_selector (Set_bbox _) = True"
| "is_selector (Set_filter _) = True"
| "is_selector _ = False"

section \<open>An example service\<close>

text \<open>
  Concrete objects on which the theorems below are instantiated: caller objects that
  are an \<open>int\<close> or a \<open>str\<close>, three \<open>Crs\<close> objects with the attributes \<open>owslib.crs\<close>
  gives them, and a service with one feature type and a GET and a POST endpoint.
\<close>

datatype pyval = PInt int | PStr string

fun example_str :: "pyval \<Rightarrow> string" where
  "example_str (PInt i) = str_int i"
| "example_str (PStr s) = s"

definition crs_4326_urn :: crs where
  "crs_4326_urn = \<lparr> crs_id = ''urn:ogc:def:crs:EPSG::4326'', encoding = ''urn'', axisorder = ''yx'',
      getcode = ''EPSG:4326'', getcodeurn = ''urn:ogc:def:crs:EPSG::4326'' \<rparr>"

definition crs_3857_urn :: crs where
  "crs_3857_urn = \<lparr> crs_id = ''urn:ogc:def:crs:EPSG::3857'', encoding = ''urn'', axisorder = ''xy'',
      getcode = ''EPSG:3857'', getcodeurn = ''urn:ogc:def:crs:EPSG::3857'' \<rparr>"

definition crs_4326_code :: crs where
  "crs_4326_code = \<lparr> crs_id = ''EPSG:4326'', encoding = ''code'', axisorder = ''xy'',
      getcode = ''EPSG:4326'', getcodeurn = ''urn:ogc:def:crs:EPSG::4326'' \<rparr>"

definition crs_27700_code :: crs where
  "crs_27700_code = \<lparr> crs_id = ''EPSG:27700'', encoding = ''code'', axisorder = ''xy'',
      getcode = ''EPSG:27700'', getcodeurn = ''urn:ogc:def:crs:EPSG::27700'' \<rparr>"

fun example_Crs :: "pyval \<Rightarrow> error + crs" where
  "example_Crs (PInt i) = Inl CrsError"
| "example_Crs (PStr s) =
     (if s = ''urn:ogc:def:crs:EPSG::4326'' then Inr crs_4326_urn
      else if s = ''urn:ogc:def:crs:EPSG::3857'' then Inr crs_3857_urn
      else if s = ''EPSG:4326'' then Inr crs_4326_code
      else Inl CrsError)"

definition example_externals :: "pyval externals" where
  "example_externals =
     \<lparr> py_str = example_str, Crs = example_Crs,
       crs_eq = (\<lambda>x y. getcodeurn x = getcodeurn y),
       to_string = (\<lambda>calls. ''<GetFeature/>'') \<rparr>"

definition example_wfs :: "string \<Rightarrow> wfs" where
  "example_wfs v =
     \<lparr> version = v,
       contents = [''roads'' \<mapsto> \<lparr> crsOptions = [crs_4326_urn, crs_3857_urn] \<rparr>],
       getOperationByName = (\<lambda>name.
         if name = ''GetFeature'' then
           Inr \<lparr> methods = [[''type'' \<mapsto> ''Get'', ''url'' \<mapsto> ''http://example.org/wfs''],
                             [''type'' \<mapsto> ''Post'', ''url'' \<mapsto> ''http://example.org/wfs?'']] \<rparr>
         else Inl KeyError) \<rparr>"

text \<open>Calls of the builders used below.\<close>

definition example_both :: "pyval getfeature_args" where
  "example_both =
     (default_args ''Get'')
       \<lparr> typename := TList [''roads''], bbox := Some [PInt 0, PInt 0, PInt 1, PInt 1],
         featureid := Some [''f1''] \<rparr>"

definition example_box :: "pyval getfeature_args" where
  "example_box =
     (default_args ''Get'')
       \<lparr> typename := TList [''roads''], filter_arg := Some ''<Filter/>'',
         bbox := Some [PInt 1, PInt 2, PInt 3, PInt 4] \<rparr>"

definition example_paged :: "pyval getfeature_args" where
  "example_paged =
     (default_args ''Get'') \<lparr> typename := TList [''roads''], maxfeatures := Some 50 \<rparr>"

definition example_zero :: "pyval getfeature_args" where
  "example_zero =
     (default_args ''Get'')
       \<lparr> typename := TList [''roads''], maxfeatures := Some 0, startindex := Some 0 \<rparr>"

section \<open>Properties\<close>

lemma str_int_simps:
  "str_int 0 = ''0''" "str_int 1 = ''1''" "str_int 2 = ''2''" "str_int 3 = ''3''"
  "str_int 4 = ''4''" "str_int 50 = ''50''"
  by (simp_all add: str_int_def str_nat.simps digit_char_def)

subsection \<open>Bounding boxes\<close>

text \<open>
  Claim C1. A bounding box with five elements carries its CRS as the fifth one. Under
  the versions 1.1.0 and 2.0.0, when that CRS has the encoding \<open>urn\<close> and the axis order
  \<open>yx\<close>, \<open>getBBOXKVP\<close> returns the five tokens miny, minx, maxy, maxx and the URN form
  of the code, joined by commas; with the encoding \<open>urn\<close> and another axis order it
  returns minx, miny, maxx, maxy and the URN form; with another encoding it returns
  minx, miny, maxx, maxy and the plain code.
\<close>

theorem getBBOXKVP_explicit_crs:
  assumes "length b = 5"
    and "Crs E (b ! 4) = Inr srs"
    and "version self = ''1.1.0'' \<or> version self = ''2.0.0''"
  shows "(encoding srs = ''urn'' \<and> axisorder srs = ''yx'' \<longrightarrow>
            getBBOXKVP E self b t =
              Inr (join '','' [py_str E (b ! 1), py_str E (b ! 0), py_str E (b ! 3),
                               py_str E (b ! 2), getcodeurn srs])) \<and>
         (encoding srs = ''urn'' \<and> axisorder srs \<noteq> ''yx'' \<longrightarrow>
            getBBOXKVP E self b t =
              Inr (join '','' [py_str E (b ! 0), py_str E (b ! 1), py_str E (b ! 2),
                               py_str E (b ! 3), getcodeurn srs])) \<and>
         (encoding srs \<noteq> ''urn'' \<longrightarrow>
            getBBOXKVP E self b t =
              Inr (join '','' [py_str E (b ! 0), py_str E (b ! 1), py_str E (b ! 2),
                               py_str E (b ! 3), getcode srs]))"
  using assms by (auto simp: getBBOXKVP_def bbox_srs_def bind_def fmt5_def)

theorem getBBOXKVP_explicit_crs_witness:
  "getBBOXKVP example_externals (example_wfs ''1.1.0'')
     [PInt 1, PInt 2, PInt 3, PInt 4, PStr ''urn:ogc:def:crs:EPSG::4326''] (TList [''roads''])
     = Inr ''2,1,4,3,urn:ogc:def:crs:EPSG::4326'' \<and>
   getBBOXKVP example_externals (example_wfs ''2.0.0'')
     [PInt 1, PInt 2, PInt 3, PInt 4, PStr ''urn:ogc:def:crs:EPSG::3857''] TNone
     = Inr ''1,2,3,4,urn:ogc:def:crs:EPSG::3857'' \<and>
   getBBOXKVP example_externals (example_wfs ''2.0.0'')
     [PInt 1, PInt 2, PInt 3, PInt 4, PStr ''EPSG:4326''] TNone
     = Inr ''1,2,3,4,EPSG:4326''"
  using getBBOXKVP_explicit_crs [of "[PInt 1, PInt 2, PInt 3, PInt 4, PStr ''urn:ogc:def:crs:EPSG::4326'']"
      example_externals crs_4326_urn "example_wfs ''1.1.0''" "TList [''roads'']"]
    getBBOXKVP_explicit_crs [of "[PInt 1, PInt 2, PInt 3, PInt 4, PStr ''urn:ogc:def:crs:EPSG::3857'']"
      example_externals crs_3857_urn "example_wfs ''2.0.0''" TNone]
    getBBOXKVP_explicit_crs [of "[PInt 1, PInt 2, PInt 3, PInt 4, PStr ''EPSG:4326'']"
      example_externals crs_4326_code "example_wfs ''2.0.0''" TNone]
  by (simp add: example_externals_def example_wfs_def crs_4326_urn_def crs_3857_urn_def
      crs_4326_code_def str_int_simps)

text \<open>
  Claim C9. Under the version 1.0.0, whatever the encoding and the axis order of the
  CRS of the box (its fifth element, or the default of the first feature type),
  \<open>getBBOXKVP\<close> returns minx, miny, maxx, maxy and the plain code: the axes are never
  swapped.
\<close>

theorem getBBOXKVP_1_0_0:
  assumes "version self = ''1.0.0''"
    and "bbox_srs E self b t = Inr srs"
    and "4 \<le> length b"
  shows "getBBOXKVP E self b t =
           Inr (join '','' [py_str E (b ! 0), py_str E (b ! 1), py_str E (b ! 2),
                            py_str E (b ! 3), getcode srs])"
  using assms by (simp add: getBBOXKVP_def bind_def fmt5_def)

theorem getBBOXKVP_1_0_0_witness:
  "getBBOXKVP example_externals (example_wfs ''1.0.0'')
     [PInt 1, PInt 2, PInt 3, PInt 4, PStr ''urn:ogc:def:crs:EPSG::4326''] (TList [''roads''])
     = Inr ''1,2,3,4,EPSG:4326'' \<and>
   getBBOXKVP example_externals (example_wfs ''1.0.0'')
     [PInt 1, PInt 2, PInt 3, PInt 4] (TList [''roads''])
     = Inr ''1,2,3,4,EPSG:4326''"
proof -
  have v: "version (example_wfs ''1.0.0'') = ''1.0.0''"
    by (simp add: example_wfs_def)
  have s5: "bbox_srs example_externals (example_wfs ''1.0.0'')
              [PInt 1, PInt 2, PInt 3, PInt 4, PStr ''urn:ogc:def:crs:EPSG::4326'']
              (TList [''roads'']) = Inr crs_4326_urn"
    by (simp add: bbox_srs_def example_externals_def)
  have s4: "bbox_srs example_externals (example_wfs ''1.0.0'')
              [PInt 1, PInt 2, PInt 3, PInt 4] (TList [''roads'']) = Inr crs_4326_urn"
    by (simp add: bbox_srs_def bind_def example_wfs_def)
  show ?thesis
    using getBBOXKVP_1_0_0 [OF v s5] getBBOXKVP_1_0_0 [OF v s4]
    by (simp add: example_externals_def crs_4326_urn_def str_int_simps)
qed

subsection \<open>Evaluation on the example service\<close>

lemma lower_simps:
  "lower ''Get'' = ''get''" "lower ''GET'' = ''get''" "lower ''Post'' = ''post''"
  "lower ''POST'' = ''post''" "lower ''Put'' = ''put''"
  by (simp_all add: lower_def lower_char_def)

lemma example_getfeature_url:
  "getfeature_url (example_wfs v) ''Get'' = Inr (Some ''http://example.org/wfs'')"
  "getfeature_url (example_wfs v) ''GET'' = Inr (Some ''http://example.org/wfs'')"
  "getfeature_url (example_wfs v) ''Post'' = Inr (Some ''http://example.org/wfs?'')"
  by (simp_all add: getfeature_url_def example_wfs_def bind_def lower_simps)

lemma major_version_simps:
  "major_version (example_wfs ''2.0.0'') = Inr 2"
  "major_version (example_wfs ''1.1.0'') = Inr 1"
  "major_version (example_wfs ''1.0.0'') = Inr 1"
  by (simp_all add: major_version_def example_wfs_def py_int_def strip_def is_space_def
      int_unsigned_def digit_val_def)

subsection \<open>Coordinate reference systems\<close>

lemma list_index_Some:
  assumes "\<exists>c\<in>set xs. eq c x"
  shows "\<exists>i pre post. list_index eq xs x = Some i \<and> i < length xs \<and> xs = pre @ (xs ! i) # post \<and>
           length pre = i \<and> eq (xs ! i) x \<and> (\<forall>p\<in>set pre. \<not> eq p x)"
  using assms
proof (induction xs)
  case Nil
  then show ?case by simp
next
  case (Cons y ys)
  show ?case
  proof (cases "eq y x")
    case True
    then have "list_index eq (y # ys) x = Some 0 \<and> 0 < length (y # ys) \<and>
        y # ys = [] @ ((y # ys) ! 0) # ys \<and> length ([]::'a list) = 0 \<and> eq ((y # ys) ! 0) x \<and>
        (\<forall>p\<in>set []. \<not> eq p x)"
      by simp
    then show ?thesis by blast
  next
    case False
    with Cons.prems have "\<exists>c\<in>set ys. eq c x" by auto
    from Cons.IH [OF this] obtain i pre post where
      h: "list_index eq ys x = Some i" "i < length ys" "ys = pre @ (ys ! i) # post"
         "length pre = i" "eq (ys ! i) x" "\<forall>p\<in>set pre. \<not> eq p x"
      by blast
    have "y # ys = (y # pre) @ ((y # ys) ! Suc i) # post"
      using h(3) by simp
    with False h have "list_index eq (y # ys) x = Some (Suc i) \<and> Suc i < length (y # ys) \<and>
        y # ys = (y # pre) @ ((y # ys) ! Suc i) # post \<and> length (y # pre) = Suc i \<and>
        eq ((y # ys) ! Suc i) x \<and> (\<forall>p\<in>set (y # pre). \<not> eq p x)"
      by simp
    then show ?thesis by blast
  qed
qed

lemma list_index_None:
  assumes "\<forall>c\<in>set xs. \<not> eq c x"
  shows "list_index eq xs x = None"
  using assms by (induction xs) auto

text \<open>
  Claim C5. For a feature type \<open>t\<close> of the capability contents and a requested CRS
  \<open>srs\<close> (the argument itself, or what \<open>Crs\<close> makes of it): when an entry of the
  \<open>crsOptions\<close> of \<open>t\<close> equals \<open>srs\<close>, \<open>getSRS\<close> returns the first such entry, the
  object of the server's list and not the caller's, and logs nothing; when no entry
  does, \<open>getSRS\<close> logs one warning, whose arguments are the code of \<open>srs\<close>, \<open>t\<close> and the
  identifiers of the options joined by a comma and a space, and returns \<open>None\<close>; in
  neither case does it raise.
\<close>

theorem getSRS_soft_failure:
  assumes "contents self t = Some ft"
    and "as_crs E srsname = Inr srs"
  shows "((\<exists>c\<in>set (crsOptions ft). crs_eq E c srs) \<longrightarrow>
            (\<exists>pre c post.
               getSRS E self srsname t = ([], Inr (Some c)) \<and>
               crsOptions ft = pre @ c # post \<and> crs_eq E c srs \<and>
               (\<forall>p\<in>set pre. \<not> crs_eq E p srs))) \<and>
         ((\<forall>c\<in>set (crsOptions ft). \<not> crs_eq E c srs) \<longrightarrow>
            getSRS E self srsname t =
              ([(''Requested srsName %r is not declared as being allowed for requested typename %r. Options are: %r.'',
                 [getcode srs, t, join '', '' (map crs_id (crsOptions ft))])],
               Inr None))"
proof (intro conjI impI)
  assume "\<exists>c\<in>set (crsOptions ft). crs_eq E c srs"
  from list_index_Some [of "crsOptions ft" "crs_eq E" srs, OF this] obtain i pre post where
    h: "list_index (crs_eq E) (crsOptions ft) srs = Some i"
       "crsOptions ft = pre @ (crsOptions ft ! i) # post"
       "crs_eq E (crsOptions ft ! i) srs" "\<forall>p\<in>set pre. \<not> crs_eq E p srs"
    by blast
  have "getSRS E self srsname t = ([], Inr (Some (crsOptions ft ! i)))"
    using assms h(1) by (simp add: getSRS_def)
  with h show "\<exists>pre c post.
               getSRS E self srsname t = ([], Inr (Some c)) \<and>
               crsOptions ft = pre @ c # post \<and> crs_eq E c srs \<and>
               (\<forall>p\<in>set pre. \<not> crs_eq E p srs)"
    by blast
next
  assume "\<forall>c\<in>set (crsOptions ft). \<not> crs_eq E c srs"
  from list_index_None [of "crsOptions ft" "crs_eq E" srs, OF this] assms
  show "getSRS E self srsname t =
              ([(''Requested srsName %r is not declared as being allowed for requested typename %r. Options are: %r.'',
                 [getcode srs, t, join '', '' (map crs_id (crsOptions ft))])],
               Inr None)"
    by (simp add: getSRS_def)
qed


theorem getSRS_soft_failure_witness:
  "getSRS example_externals (example_wfs ''2.0.0'') (A_Raw (PStr ''EPSG:4326'')) ''roads''
     = ([], Inr (Some crs_4326_urn)) \<and>
   getSRS example_externals (example_wfs ''2.0.0'') (A_Crs crs_27700_code) ''roads''
     = ([(''Requested srsName %r is not declared as being allowed for requested typename %r. Options are: %r.'',
          [''EPSG:27700'', ''roads'',
           ''urn:ogc:def:crs:EPSG::4326, urn:ogc:def:crs:EPSG::3857''])],
        Inr None)"
proof -
  have c: "contents (example_wfs ''2.0.0'') ''roads'' =
             Some \<lparr> crsOptions = [crs_4326_urn, crs_3857_urn] \<rparr>"
    by (simp add: example_wfs_def)
  have s1: "as_crs example_externals (A_Raw (PStr ''EPSG:4326'')) = Inr crs_4326_code"
    by (simp add: as_crs_def example_externals_def)
  have s2: "as_crs example_externals (A_Crs crs_27700_code) = Inr crs_27700_code"
    by (simp add: as_crs_def)
  have present: "\<exists>c\<in>set (crsOptions \<lparr> crsOptions = [crs_4326_urn, crs_3857_urn] \<rparr>).
                   crs_eq example_externals c crs_4326_code"
    by (simp add: example_externals_def crs_4326_urn_def crs_4326_code_def)
  have absent: "\<forall>c\<in>set (crsOptions \<lparr> crsOptions = [crs_4326_urn, crs_3857_urn] \<rparr>).
                   \<not> crs_eq example_externals c crs_27700_code"
    by (simp add: example_externals_def crs_4326_urn_def crs_3857_urn_def crs_27700_code_def)
  from getSRS_soft_failure [OF c s1] present obtain pre c post where
    h: "getSRS example_externals (example_wfs ''2.0.0'') (A_Raw (PStr ''EPSG:4326'')) ''roads''
          = ([], Inr (Some c))"
       "[crs_4326_urn, crs_3857_urn] = pre @ c # post"
       "crs_eq example_externals c crs_4326_code"
    by auto
  have "c = crs_4326_urn"
  proof (cases pre)
    case Nil
    with h(2) show ?thesis by simp
  next
    case (Cons x xs)
    with h(2) have "[crs_3857_urn] = xs @ c # post" by simp
    then have "c = crs_3857_urn" by (cases xs) auto
    with h(3) show ?thesis
      by (simp add: example_externals_def crs_3857_urn_def crs_4326_code_def)
  qed
  with h(1) have first: "getSRS example_externals (example_wfs ''2.0.0'')
      (A_Raw (PStr ''EPSG:4326'')) ''roads'' = ([], Inr (Some crs_4326_urn))"
    by simp
  from getSRS_soft_failure [OF c s2] absent
  have "getSRS example_externals (example_wfs ''2.0.0'') (A_Crs crs_27700_code) ''roads''
     = ([(''Requested srsName %r is not declared as being allowed for requested typename %r. Options are: %r.'',
          [getcode crs_27700_code, ''roads'',
           join '', '' (map crs_id (crsOptions \<lparr> crsOptions = [crs_4326_urn, crs_3857_urn] \<rparr>))])],
        Inr None)"
    by blast
  then have second: "getSRS example_externals (example_wfs ''2.0.0'') (A_Crs crs_27700_code) ''roads''
     = ([(''Requested srsName %r is not declared as being allowed for requested typename %r. Options are: %r.'',
          [''EPSG:27700'', ''roads'',
           ''urn:ogc:def:crs:EPSG::4326, urn:ogc:def:crs:EPSG::3857''])],
        Inr None)"
    by (simp add: crs_27700_code_def crs_4326_urn_def crs_3857_urn_def)
  from first second show ?thesis by simp
qed

subsection \<open>The endpoint\<close>

lemma next_url_first:
  assumes "\<forall>p\<in>set pre. \<exists>ty. p ''type'' = Some ty \<and> lower ty \<noteq> lower method"
    and "m ''type'' = Some ty" and "lower ty = lower method"
  shows "next_url (pre @ m # post) method = Inr (m ''url'')"
  using assms by (induction pre) auto

lemma next_url_no_match:
  assumes "\<forall>m\<in>set ms. \<forall>ty. m ''type'' = Some ty \<longrightarrow> lower ty \<noteq> lower method"
  shows "next_url ms method = Inl StopIteration \<or> next_url ms method = Inl AttributeError"
  using assms by (induction ms) (auto split: option.splits)

lemma next_url_all_typed:
  assumes "\<forall>m\<in>set ms. \<exists>ty. m ''type'' = Some ty \<and> lower ty \<noteq> lower method"
  shows "next_url ms method = Inl StopIteration"
  using assms by (induction ms) (auto split: option.splits)

lemma GET_url:
  assumes "getfeature_url self (http_method a) = Inr (Some u)"
  shows "getGETGetFeatureRequest E self a =
           bind (getfeature_request E self a) (\<lambda>request.
             Inr ((if endswith u CHR ''?'' then u else u @ ''?'') @ urlencode (py_str E) request))"
  using assms by (simp add: getGETGetFeatureRequest_def bind_def)

lemma GET_no_url:
  assumes "getfeature_url self (http_method a) = Inl e"
  shows "getGETGetFeatureRequest E self a = Inl e"
  using assms by (simp add: getGETGetFeatureRequest_def bind_def)

lemma POST_no_url:
  assumes "getfeature_url self (http_method a) = Inl e"
  shows "outcome (getPOSTGetFeatureRequest E self a) = Inl e"
    and "document (getPOSTGetFeatureRequest E self a) = None"
  using assms by (simp_all add: getPOSTGetFeatureRequest_def bind_def Let_def)


lemma POST_url:
  assumes "getfeature_url self (http_method a) = Inr (Some u)"
    and "outcome (getPOSTGetFeatureRequest E self a) = Inr r"
  shows "fst r = (if endswith u CHR ''?'' then butlast u else u)"
  using assms
  by (auto simp: getPOSTGetFeatureRequest_def bind_def Let_def split: if_splits option.splits)

lemma POST_document:
  assumes "getfeature_url self (http_method a) = Inr (Some u)"
    and "typename_truthy (typename a)"
    and "version self = ''2.0'' \<or> version self = ''2.0.0''"
  shows "getPOSTGetFeatureRequest E self a =
           \<lparr> log = post_warnings a,
             document = Some (post_document a (join '','' (typename_list (typename a))) []),
             outcome = Inr (if endswith u CHR ''?'' then butlast u else u,
                            to_string E (post_document a
                              (join '','' (typename_list (typename a))) [])) \<rparr>"
  using assms
  by (auto simp: getPOSTGetFeatureRequest_def create_post_request_def bind_def Let_def)

text \<open>
  Claim C6. Let the capabilities declare the operation \<open>GetFeature\<close>. In both builders
  the endpoint is the \<open>url\<close> of the first entry of its method list whose \<open>type\<close>
  equals the requested method once both are in lower case (the entries before it
  having a \<open>type\<close>, as the capabilities parsers give every entry): the GET builder is
  the encoded request prefixed with it (a question mark added when missing), and every
  pair the POST builder returns has it as its first component (a trailing question mark
  removed). When no entry has such a \<open>type\<close>, both builders raise, the POST builder
  has created no document, and nothing else is tried; the exception is
  \<open>StopIteration\<close> when every entry has a \<open>type\<close>.
\<close>

theorem getfeature_endpoint:
  assumes "getOperationByName self ''GetFeature'' = Inr operation"
  shows "(\<forall>pre m post ty u.
            methods operation = pre @ m # post \<and>
            (\<forall>p\<in>set pre. \<exists>ty'. p ''type'' = Some ty' \<and> lower ty' \<noteq> lower (http_method a)) \<and>
            m ''type'' = Some ty \<and> lower ty = lower (http_method a) \<and> m ''url'' = Some u \<longrightarrow>
            getGETGetFeatureRequest E self a =
              bind (getfeature_request E self a) (\<lambda>request.
                Inr ((if endswith u CHR ''?'' then u else u @ ''?'') @
                     urlencode (py_str E) request)) \<and>
            (\<forall>r. outcome (getPOSTGetFeatureRequest E self a) = Inr r \<longrightarrow>
                 fst r = (if endswith u CHR ''?'' then butlast u else u))) \<and>
         ((\<forall>m\<in>set (methods operation). \<forall>ty.
             m ''type'' = Some ty \<longrightarrow> lower ty \<noteq> lower (http_method a)) \<longrightarrow>
            (\<exists>e. getGETGetFeatureRequest E self a = Inl e) \<and>
            (\<exists>e. outcome (getPOSTGetFeatureRequest E self a) = Inl e) \<and>
            document (getPOSTGetFeatureRequest E self a) = None) \<and>
         ((\<forall>m\<in>set (methods operation). \<exists>ty.
             m ''type'' = Some ty \<and> lower ty \<noteq> lower (http_method a)) \<longrightarrow>
            getGETGetFeatureRequest E self a = Inl StopIteration \<and>
            outcome (getPOSTGetFeatureRequest E self a) = Inl StopIteration)"
proof (intro conjI allI impI)
  fix pre m post ty u
  assume h: "methods operation = pre @ m # post \<and>
            (\<forall>p\<in>set pre. \<exists>ty'. p ''type'' = Some ty' \<and> lower ty' \<noteq> lower (http_method a)) \<and>
            m ''type'' = Some ty \<and> lower ty = lower (http_method a) \<and> m ''url'' = Some u"
  then have "next_url (methods operation) (http_method a) = Inr (m ''url'')"
    using next_url_first [of pre "http_method a" m ty post] by simp
  with h assms have url: "getfeature_url self (http_method a) = Inr (Some u)"
    by (simp add: getfeature_url_def bind_def)
  show "getGETGetFeatureRequest E self a =
          bind (getfeature_request E self a) (\<lambda>request.
            Inr ((if endswith u CHR ''?'' then u else u @ ''?'') @ urlencode (py_str E) request))"
    by (rule GET_url [OF url])
  fix r
  assume "outcome (getPOSTGetFeatureRequest E self a) = Inr r"
  then show "fst r = (if endswith u CHR ''?'' then butlast u else u)"
    by (rule POST_url [OF url])
next
  assume "\<forall>m\<in>set (methods operation). \<forall>ty.
             m ''type'' = Some ty \<longrightarrow> lower ty \<noteq> lower (http_method a)"
  then have "next_url (methods operation) (http_method a) = Inl StopIteration \<or>
             next_url (methods operation) (http_method a) = Inl AttributeError"
    by (rule next_url_no_match)
  with assms obtain e where e: "getfeature_url self (http_method a) = Inl e"
    by (auto simp: getfeature_url_def bind_def)
  show "\<exists>e. getGETGetFeatureRequest E self a = Inl e"
    using GET_no_url [OF e] by blast
  show "\<exists>e. outcome (getPOSTGetFeatureRequest E self a) = Inl e"
    using POST_no_url(1) [OF e] by blast
  show "document (getPOSTGetFeatureRequest E self a) = None"
    by (rule POST_no_url(2) [OF e])
next
  assume "\<forall>m\<in>set (methods operation). \<exists>ty.
             m ''type'' = Some ty \<and> lower ty \<noteq> lower (http_method a)"
  then have "next_url (methods operation) (http_method a) = Inl StopIteration"
    by (rule next_url_all_typed)
  with assms have e: "getfeature_url self (http_method a) = Inl StopIteration"
    by (simp add: getfeature_url_def bind_def)
  show "getGETGetFeatureRequest E self a = Inl StopIteration"
    by (rule GET_no_url [OF e])
  show "outcome (getPOSTGetFeatureRequest E self a) = Inl StopIteration"
    by (rule POST_no_url(1) [OF e])
qed

theorem getfeature_endpoint_witness:
  "getGETGetFeatureRequest example_externals (example_wfs ''2.0.0'')
     ((default_args ''POST'') \<lparr> typename := TList [''roads''] \<rparr>)
     = Inr ''http://example.org/wfs?service=WFS&version=2.0.0&request=GetFeature&typenames=roads'' \<and>
   fst (projr (outcome (getPOSTGetFeatureRequest example_externals (example_wfs ''2.0.0'')
     ((default_args ''POST'') \<lparr> typename := TList [''roads''] \<rparr>)))) = ''http://example.org/wfs'' \<and>
   getGETGetFeatureRequest example_externals (example_wfs ''2.0.0'')
     ((default_args ''Put'') \<lparr> typename := TList [''roads''] \<rparr>) = Inl StopIteration \<and>
   outcome (getPOSTGetFeatureRequest example_externals (example_wfs ''2.0.0'')
     ((default_args ''Put'') \<lparr> typename := TList [''roads''] \<rparr>)) = Inl StopIteration \<and>
   document (getPOSTGetFeatureRequest example_externals (example_wfs ''2.0.0'')
     ((default_args ''Put'') \<lparr> typename := TList [''roads''] \<rparr>)) = None"
proof -
  let ?self = "example_wfs ''2.0.0''"
  let ?a = "(default_args ''POST'') \<lparr> typename := TList [''roads''] \<rparr> :: pyval getfeature_args"
  let ?b = "(default_args ''Put'') \<lparr> typename := TList [''roads''] \<rparr> :: pyval getfeature_args"
  let ?get = "[''type'' \<mapsto> ''Get'', ''url'' \<mapsto> ''http://example.org/wfs'']"
  let ?post = "[''type'' \<mapsto> ''Post'', ''url'' \<mapsto> ''http://example.org/wfs?'']"
  have op: "getOperationByName ?self ''GetFeature'' = Inr \<lparr> methods = [?get, ?post] \<rparr>"
    by (simp add: example_wfs_def)
  have match: "methods \<lparr> methods = [?get, ?post] \<rparr> = [?get] @ ?post # [] \<and>
      (\<forall>p\<in>set [?get]. \<exists>ty'. p ''type'' = Some ty' \<and> lower ty' \<noteq> lower (http_method ?a)) \<and>
      ?post ''type'' = Some ''Post'' \<and> lower ''Post'' = lower (http_method ?a) \<and>
      ?post ''url'' = Some ''http://example.org/wfs?''"
    by (simp add: default_args_def lower_simps)
  have none: "\<forall>m\<in>set (methods \<lparr> methods = [?get, ?post] \<rparr>). \<forall>ty.
      m ''type'' = Some ty \<longrightarrow> lower ty \<noteq> lower (http_method ?b)"
    by (simp add: default_args_def lower_simps)
  have request: "getfeature_request example_externals ?self ?a
      = Inr [(''service'', Str ''WFS''), (''version'', Str ''2.0.0''),
             (''request'', Str ''GetFeature''), (''typenames'', Str ''roads'')]"
    by (simp add: getfeature_request_def request_selector_def request_typename_def
        request_properties_def request_maxfeatures_def request_paging_def default_args_def
        bind_def major_version_simps) (simp add: example_wfs_def)
  have data: "urlencode (py_str example_externals)
      [(''service'', Str ''WFS''), (''version'', Str ''2.0.0''),
       (''request'', Str ''GetFeature''), (''typenames'', Str ''roads'')]
      = ''service=WFS&version=2.0.0&request=GetFeature&typenames=roads''"
    by (simp add: urlencode_def urlencode_item_def quote_plus_def quote_byte_def)
  have url: "getfeature_url ?self (http_method ?a) = Inr (Some ''http://example.org/wfs?'')"
    by (simp add: getfeature_url_def example_wfs_def bind_def default_args_def lower_simps)
  have tn: "typename_truthy (typename ?a)"
    by (simp add: default_args_def)
  have v: "version ?self = ''2.0'' \<or> version ?self = ''2.0.0''"
    by (simp add: example_wfs_def)
  have post: "outcome (getPOSTGetFeatureRequest example_externals ?self ?a)
      = Inr (''http://example.org/wfs'', ''<GetFeature/>'')"
    by (simp add: POST_document [OF url tn v] endswith_def example_externals_def)
  from getfeature_endpoint [OF op, of ?a example_externals] match
  have 1: "getGETGetFeatureRequest example_externals ?self ?a =
             bind (getfeature_request example_externals ?self ?a) (\<lambda>request.
               Inr ((if endswith ''http://example.org/wfs?'' CHR ''?'' then ''http://example.org/wfs?''
                     else ''http://example.org/wfs?'' @ ''?'') @
                    urlencode (py_str example_externals) request))"
    and 2: "\<forall>r. outcome (getPOSTGetFeatureRequest example_externals ?self ?a) = Inr r \<longrightarrow>
              fst r = (if endswith ''http://example.org/wfs?'' CHR ''?''
                       then butlast ''http://example.org/wfs?'' else ''http://example.org/wfs?'')"
    by blast+
  have typed: "\<forall>m\<in>set (methods \<lparr> methods = [?get, ?post] \<rparr>). \<exists>ty.
      m ''type'' = Some ty \<and> lower ty \<noteq> lower (http_method ?b)"
    by (simp add: default_args_def lower_simps)
  from getfeature_endpoint [OF op, of ?b example_externals] none typed
  have 3: "getGETGetFeatureRequest example_externals ?self ?b = Inl StopIteration \<and>
           outcome (getPOSTGetFeatureRequest example_externals ?self ?b) = Inl StopIteration \<and>
           document (getPOSTGetFeatureRequest example_externals ?self ?b) = None"
    by blast
  have g: "getGETGetFeatureRequest example_externals ?self ?a
     = Inr ''http://example.org/wfs?service=WFS&version=2.0.0&request=GetFeature&typenames=roads''"
    using 1 request data by (simp add: bind_def endswith_def)
  have p: "fst (projr (outcome (getPOSTGetFeatureRequest example_externals ?self ?a)))
     = ''http://example.org/wfs''"
    using 2 post by (simp add: endswith_def)
  from g p 3 show ?thesis by auto
qed

subsection \<open>The POST builder\<close>

text \<open>
  Claim C7. When \<open>typename\<close> is false (\<open>None\<close> or empty) and \<open>filter\<close> is a non-empty
  string, and the endpoint of the requested method is \<open>u\<close>, the POST builder returns
  \<open>u\<close> without a trailing question mark, paired with the filter as it was given, and
  no POST document has been created.
\<close>

theorem getPOST_filter_only:
  assumes "\<not> typename_truthy (typename a)"
    and "filter_arg a = Some f" and "f \<noteq> []"
    and "getfeature_url self (http_method a) = Inr (Some u)"
  shows "outcome (getPOSTGetFeatureRequest E self a) =
           Inr (if endswith u CHR ''?'' then butlast u else u, f) \<and>
         document (getPOSTGetFeatureRequest E self a) = None"
  using assms by (simp add: getPOSTGetFeatureRequest_def bind_def)

theorem getPOST_filter_only_witness:
  "outcome (getPOSTGetFeatureRequest example_externals (example_wfs ''2.0.0'')
      ((default_args ''Post'') \<lparr> filter_arg := Some ''<Filter/>'' \<rparr>))
     = Inr (''http://example.org/wfs'', ''<Filter/>'') \<and>
   document (getPOSTGetFeatureRequest example_externals (example_wfs ''2.0.0'')
      ((default_args ''Post'') \<lparr> filter_arg := Some ''<Filter/>'' \<rparr>)) = None"
  using getPOST_filter_only [of "(default_args ''Post'') \<lparr> filter_arg := Some ''<Filter/>'' \<rparr>"
      "''<Filter/>''" "example_wfs ''2.0.0''" "''http://example.org/wfs?''" example_externals]
  by (simp add: default_args_def example_getfeature_url endswith_def)

text \<open>
  Claim C8. For a protocol version other than 2.0 and 2.0.0, \<open>create_post_request\<close>
  returns \<open>None\<close>: there is no builder. A POST request whose endpoint resolves and
  that goes on to build a document (it has a feature type list, or no filter) then
  raises \<open>AttributeError\<close>, on the first call made on the missing builder; no document
  exists and nothing is returned.
\<close>

theorem create_post_request_other_versions:
  assumes "version self \<noteq> ''2.0''" and "version self \<noteq> ''2.0.0''"
  shows "(create_post_request self :: 'v post_call list option) = None \<and>
         (\<forall>E a u. getfeature_url self (http_method a) = Inr (Some u) \<and>
                  (typename_truthy (typename a) \<or> \<not> truthy_list (filter_arg a)) \<longrightarrow>
            outcome (getPOSTGetFeatureRequest E self (a :: 'v getfeature_args))
              = Inl AttributeError \<and>
            document (getPOSTGetFeatureRequest E self a) = None)"
  using assms
  by (auto simp: getPOSTGetFeatureRequest_def create_post_request_def bind_def)

theorem create_post_request_other_versions_witness:
  "(create_post_request (example_wfs ''1.1.0'') :: pyval post_call list option) = None \<and>
   outcome (getPOSTGetFeatureRequest example_externals (example_wfs ''1.1.0'')
      ((default_args ''Post'') \<lparr> typename := TList [''roads''] \<rparr>)) = Inl AttributeError \<and>
   document (getPOSTGetFeatureRequest example_externals (example_wfs ''1.1.0'')
      ((default_args ''Post'') \<lparr> typename := TList [''roads''] \<rparr>)) = None"
proof -
  let ?a = "(default_args ''Post'') \<lparr> typename := TList [''roads''] \<rparr> :: pyval getfeature_args"
  have v: "version (example_wfs ''1.1.0'') \<noteq> ''2.0''"
    "version (example_wfs ''1.1.0'') \<noteq> ''2.0.0''"
    by (simp_all add: example_wfs_def)
  have u: "getfeature_url (example_wfs ''1.1.0'') (http_method ?a)
           = Inr (Some ''http://example.org/wfs?'')"
    by (simp add: default_args_def example_getfeature_url)
  have t: "typename_truthy (typename ?a) \<or> \<not> truthy_list (filter_arg ?a)"
    by (simp add: default_args_def)
  show ?thesis
    using create_post_request_other_versions [OF v, where ?'v = pyval] u t
    by blast
qed

subsection \<open>The GET builder\<close>

text \<open>
  Claim C3. For a client of version 2.0.0 whose capabilities give the endpoint
  \<open>http://example.org/wfs\<close> for the method \<open>Get\<close> of \<open>GetFeature\<close>, the GET builder
  called with \<open>typename=["roads"]\<close> and every other argument at its default returns
  exactly \<open>http://example.org/wfs?service=WFS&version=2.0.0&request=GetFeature&typenames=roads\<close>.
\<close>

theorem getGET_typenames_only:
  assumes "version self = ''2.0.0''"
    and "getfeature_url self ''Get'' = Inr (Some ''http://example.org/wfs'')"
  shows "getGETGetFeatureRequest E self ((default_args ''Get'') \<lparr> typename := TList [''roads''] \<rparr>)
           = Inr ''http://example.org/wfs?service=WFS&version=2.0.0&request=GetFeature&typenames=roads''"
proof -
  have m: "major_version self = Inr 2"
    using assms(1)
    by (simp add: major_version_def py_int_def strip_def is_space_def int_unsigned_def digit_val_def)
  have r: "getfeature_request E self ((default_args ''Get'') \<lparr> typename := TList [''roads''] \<rparr>)
             = Inr [(''service'', Str ''WFS''), (''version'', Str ''2.0.0''),
                    (''request'', Str ''GetFeature''), (''typenames'', Str ''roads'')]"
    using assms(1) m
    by (simp add: getfeature_request_def request_selector_def request_typename_def
        request_properties_def request_maxfeatures_def request_paging_def default_args_def bind_def)
  have e: "urlencode (py_str E) [(''service'', Str ''WFS''), (''version'', Str ''2.0.0''),
                    (''request'', Str ''GetFeature''), (''typenames'', Str ''roads'')]
           = ''service=WFS&version=2.0.0&request=GetFeature&typenames=roads''"
    by (simp add: urlencode_def urlencode_item_def quote_plus_def quote_byte_def)
  show ?thesis
    using assms(2) r e
    by (simp add: getGETGetFeatureRequest_def default_args_def bind_def endswith_def)
qed

theorem getGET_typenames_only_witness:
  "getGETGetFeatureRequest example_externals (example_wfs ''2.0.0'')
     ((default_args ''Get'') \<lparr> typename := TList [''roads''] \<rparr>)
   = Inr ''http://example.org/wfs?service=WFS&version=2.0.0&request=GetFeature&typenames=roads''"
proof -
  have v: "version (example_wfs ''2.0.0'') = ''2.0.0''"
    by (simp add: example_wfs_def)
  show ?thesis
    by (rule getGET_typenames_only [OF v example_getfeature_url(1)])
qed


subsection \<open>The keys of the request\<close>

lemmas request_defs =
  getfeature_request_def request_selector_def request_typename_def request_properties_def
  request_maxfeatures_def request_paging_def

lemmas urlencode_defs = urlencode_def urlencode_item_def quote_plus_def quote_byte_def digit_char_def

lemma dict_get_dict_set:
  "dict_get (dict_set k v d) k' = (if k' = k then Some v else dict_get d k')"
  by (induction d) (auto simp: dict_get_def)

lemma dict_get_fold:
  "k \<notin> set (keys ps) \<Longrightarrow>
   dict_get (fold (\<lambda>param. dict_set (fst param) (snd param)) ps d) k = dict_get d k"
  by (induction ps arbitrary: d) (auto simp: dict_get_dict_set keys_def)

lemma bind_Inr: "bind m f = Inr y \<longleftrightarrow> (\<exists>x. m = Inr x \<and> f x = Inr y)"
  by (cases m) (auto simp: bind_def)

lemma selector_other:
  assumes "request_selector E self a r = Inr r'"
    and "k \<noteq> ''featureid''" "k \<noteq> ''bbox''" "k \<noteq> ''query''"
  shows "dict_get r' k = dict_get r k"
  using assms
  by (auto simp: request_selector_def bind_Inr dict_get_dict_set split: if_splits)

lemma typename_other:
  assumes "request_typename self a r = Inr r'"
    and "k \<noteq> ''typenames''" "k \<noteq> ''typename''"
  shows "dict_get r' k = dict_get r k"
  using assms
  by (auto simp: request_typename_def bind_Inr dict_get_dict_set split: if_splits)

lemma properties_other:
  assumes "k \<noteq> ''propertyname''" "k \<noteq> ''sortby''" "k \<noteq> ''featureversion''"
  shows "dict_get (request_properties a r) k = dict_get r k"
  using assms by (simp add: request_properties_def dict_get_dict_set)

lemma maxfeatures_other:
  assumes "request_maxfeatures self a r = Inr r'"
    and "k \<noteq> ''count''" "k \<noteq> ''maxfeatures''"
  shows "dict_get r' k = dict_get r k"
  using assms
  by (auto simp: request_maxfeatures_def bind_Inr dict_get_dict_set split: if_splits)

lemma paging_other:
  assumes "k \<notin> stored_query_keys a"
    and "k \<noteq> ''startindex''" "k \<noteq> ''storedQuery_id''" "k \<noteq> ''outputFormat''"
  shows "dict_get (request_paging a r) k = dict_get r k"
  using assms
  by (auto simp: request_paging_def stored_query_keys_def dict_get_dict_set dict_get_fold
      keys_def split: option.splits)

lemma paging_startindex:
  assumes "''startindex'' \<notin> stored_query_keys a"
  shows "dict_get (request_paging a r) ''startindex'' =
           (if truthy_int (startindex a) then Some (Str (str_int (the (startindex a))))
            else dict_get r ''startindex'')"
  using assms
  by (auto simp: request_paging_def stored_query_keys_def dict_get_dict_set dict_get_fold
      keys_def split: option.splits)

lemma getfeature_request_steps:
  assumes "getfeature_request E self a = Inr request"
  obtains r1 r2 r3 where
    "request_selector E self a
       [(''service'', Str ''WFS''), (''version'', Str (version self)),
        (''request'', Str ''GetFeature'')] = Inr r1"
    "request_typename self a r1 = Inr r2"
    "request_maxfeatures self a (request_properties a r2) = Inr r3"
    "request = request_paging a r3"
  using assms by (auto simp: getfeature_request_def bind_Inr)

lemma getGET_request:
  assumes "getGETGetFeatureRequest E self a = Inr url"
  obtains u request where
    "getfeature_url self (http_method a) = Inr (Some u)"
    "url = (if endswith u CHR ''?'' then u else u @ ''?'') @ urlencode (py_str E) request"
    "getfeature_request E self a = Inr request"
  using assms
  by (auto simp: getGETGetFeatureRequest_def bind_Inr split: option.splits)


lemma selector_featureid:
  assumes "request_selector E self a r = Inr r'"
    and "dict_get r ''featureid'' = None"
  shows "dict_get r' ''featureid'' =
           (if truthy_list (featureid a) then Some (Str (join '','' (the (featureid a)))) else None)"
  using assms
  by (auto simp: request_selector_def bind_Inr dict_get_dict_set split: if_splits)

lemma selector_bbox:
  assumes "request_selector E self a r = Inr r'"
    and "dict_get r ''bbox'' = None"
  shows "dict_get r' ''bbox'' =
           (if \<not> truthy_list (featureid a) \<and> truthy_list (bbox a) then
              Some (Str (projr (getBBOXKVP E self (the (bbox a)) (typename a))))
            else None)"
    and "\<not> truthy_list (featureid a) \<and> truthy_list (bbox a) \<longrightarrow>
           \<not> isl (getBBOXKVP E self (the (bbox a)) (typename a))"
  using assms
  by (auto simp: request_selector_def bind_Inr dict_get_dict_set split: if_splits)

lemma selector_query:
  assumes "request_selector E self a r = Inr r'"
    and "dict_get r ''query'' = None"
  shows "dict_get r' ''query'' =
           (if \<not> truthy_list (featureid a) \<and> \<not> truthy_list (bbox a) \<and> truthy_list (filter_arg a)
            then Some (Str (the (filter_arg a))) else None)"
  using assms
  by (auto simp: request_selector_def bind_Inr dict_get_dict_set split: if_splits)

lemma request_selectors:
  assumes "getfeature_request E self a = Inr request"
    and "stored_query_keys a \<inter> {''featureid'', ''bbox'', ''query''} = {}"
  shows "dict_get request ''featureid'' =
           (if truthy_list (featureid a) then Some (Str (join '','' (the (featureid a)))) else None)"
    and "dict_get request ''bbox'' =
           (if \<not> truthy_list (featureid a) \<and> truthy_list (bbox a) then
              Some (Str (projr (getBBOXKVP E self (the (bbox a)) (typename a))))
            else None)"
    and "\<not> truthy_list (featureid a) \<and> truthy_list (bbox a) \<longrightarrow>
           \<not> isl (getBBOXKVP E self (the (bbox a)) (typename a))"
    and "dict_get request ''query'' =
           (if \<not> truthy_list (featureid a) \<and> \<not> truthy_list (bbox a) \<and> truthy_list (filter_arg a)
            then Some (Str (the (filter_arg a))) else None)"
proof -
  let ?r0 = "[(''service'', Str ''WFS''), (''version'', Str (version self)),
              (''request'', Str ''GetFeature'')] :: 'a py_value dict"
  from assms(1) obtain r1 r2 r3 where
    s: "request_selector E self a ?r0 = Inr r1"
       "request_typename self a r1 = Inr r2"
       "request_maxfeatures self a (request_properties a r2) = Inr r3"
       "request = request_paging a r3"
    by (rule getfeature_request_steps)
  have k: "''featureid'' \<notin> stored_query_keys a" "''bbox'' \<notin> stored_query_keys a"
    "''query'' \<notin> stored_query_keys a"
    using assms(2) by auto
  have later: "dict_get request k = dict_get r1 k"
    if "k \<notin> stored_query_keys a" "k \<in> {''featureid'', ''bbox'', ''query''}" for k
  proof -
    have "dict_get request k = dict_get r3 k"
      using that s(4) by (auto simp: paging_other)
    also have "\<dots> = dict_get (request_properties a r2) k"
      using that by (auto intro: maxfeatures_other [OF s(3)])
    also have "\<dots> = dict_get r2 k"
      using that by (auto simp: properties_other)
    also have "\<dots> = dict_get r1 k"
      using that by (auto intro: typename_other [OF s(2)])
    finally show ?thesis .
  qed
  have init: "dict_get ?r0 ''featureid'' = None" "dict_get ?r0 ''bbox'' = None"
    "dict_get ?r0 ''query'' = None"
    by (simp_all add: dict_get_def)
  show "dict_get request ''featureid'' =
           (if truthy_list (featureid a) then Some (Str (join '','' (the (featureid a)))) else None)"
    using later [OF k(1)] selector_featureid [OF s(1) init(1)] by simp
  show "dict_get request ''bbox'' =
           (if \<not> truthy_list (featureid a) \<and> truthy_list (bbox a) then
              Some (Str (projr (getBBOXKVP E self (the (bbox a)) (typename a))))
            else None)"
    using later [OF k(2)] selector_bbox(1) [OF s(1) init(2)] by simp
  show "\<not> truthy_list (featureid a) \<and> truthy_list (bbox a) \<longrightarrow>
           \<not> isl (getBBOXKVP E self (the (bbox a)) (typename a))"
    by (rule selector_bbox(2) [OF s(1) init(2)])
  show "dict_get request ''query'' =
           (if \<not> truthy_list (featureid a) \<and> \<not> truthy_list (bbox a) \<and> truthy_list (filter_arg a)
            then Some (Str (the (filter_arg a))) else None)"
    using later [OF k(3)] selector_query [OF s(1) init(3)] by simp
qed


lemma typename_keys:
  assumes "request_typename self a r = Inr r'"
    and "dict_get r ''typenames'' = None" and "dict_get r ''typename'' = None"
  shows "typename_truthy (typename a) \<longrightarrow> (\<exists>major. major_version self = Inr major)"
    and "major_version self = Inr major \<Longrightarrow>
         dict_get r' ''typenames'' =
           (if typename_truthy (typename a) \<and> 2 \<le> major
            then Some (Str (join '','' (typename_list (typename a)))) else None) \<and>
         dict_get r' ''typename'' =
           (if typename_truthy (typename a) \<and> major < 2
            then Some (Str (join '','' (typename_list (typename a)))) else None)"
    and "\<not> typename_truthy (typename a) \<Longrightarrow>
         dict_get r' ''typenames'' = None \<and> dict_get r' ''typename'' = None"
  using assms
  by (auto simp: request_typename_def bind_Inr dict_get_dict_set split: if_splits)

lemma maxfeatures_keys:
  assumes "request_maxfeatures self a r = Inr r'"
    and "dict_get r ''count'' = None" and "dict_get r ''maxfeatures'' = None"
  shows "truthy_int (maxfeatures a) \<longrightarrow> (\<exists>major. major_version self = Inr major)"
    and "major_version self = Inr major \<Longrightarrow>
         dict_get r' ''count'' =
           (if truthy_int (maxfeatures a) \<and> 2 \<le> major
            then Some (Str (str_int (the (maxfeatures a)))) else None) \<and>
         dict_get r' ''maxfeatures'' =
           (if truthy_int (maxfeatures a) \<and> major < 2
            then Some (Str (str_int (the (maxfeatures a)))) else None)"
    and "\<not> truthy_int (maxfeatures a) \<Longrightarrow>
         dict_get r' ''count'' = None \<and> dict_get r' ''maxfeatures'' = None"
  using assms
  by (auto simp: request_maxfeatures_def bind_Inr dict_get_dict_set split: if_splits)

lemma request_typename_keys:
  assumes "getfeature_request E self a = Inr request"
    and "''typenames'' \<notin> stored_query_keys a" and "''typename'' \<notin> stored_query_keys a"
  shows "typename_truthy (typename a) \<longrightarrow> (\<exists>major. major_version self = Inr major)"
    and "major_version self = Inr major \<Longrightarrow>
         dict_get request ''typenames'' =
           (if typename_truthy (typename a) \<and> 2 \<le> major
            then Some (Str (join '','' (typename_list (typename a)))) else None) \<and>
         dict_get request ''typename'' =
           (if typename_truthy (typename a) \<and> major < 2
            then Some (Str (join '','' (typename_list (typename a)))) else None)"
    and "\<not> typename_truthy (typename a) \<Longrightarrow>
         dict_get request ''typenames'' = None \<and> dict_get request ''typename'' = None"
proof -
  let ?r0 = "[(''service'', Str ''WFS''), (''version'', Str (version self)),
              (''request'', Str ''GetFeature'')] :: 'a py_value dict"
  from assms(1) obtain r1 r2 r3 where
    s: "request_selector E self a ?r0 = Inr r1"
       "request_typename self a r1 = Inr r2"
       "request_maxfeatures self a (request_properties a r2) = Inr r3"
       "request = request_paging a r3"
    by (rule getfeature_request_steps)
  have before: "dict_get r1 ''typenames'' = None" "dict_get r1 ''typename'' = None"
    using selector_other [OF s(1), of "''typenames''"] selector_other [OF s(1), of "''typename''"]
    by (simp_all add: dict_get_def)
  have after: "dict_get request k = dict_get r2 k"
    if "k \<notin> stored_query_keys a" "k \<in> {''typenames'', ''typename''}" for k
  proof -
    have "dict_get request k = dict_get r3 k"
      using that s(4) by (auto simp: paging_other)
    also have "\<dots> = dict_get (request_properties a r2) k"
      using that by (auto intro: maxfeatures_other [OF s(3)])
    also have "\<dots> = dict_get r2 k"
      using that by (auto simp: properties_other)
    finally show ?thesis .
  qed
  have eq: "dict_get request ''typenames'' = dict_get r2 ''typenames''"
    "dict_get request ''typename'' = dict_get r2 ''typename''"
    using after assms(2,3) by simp_all
  show "typename_truthy (typename a) \<longrightarrow> (\<exists>major. major_version self = Inr major)"
    by (rule typename_keys(1) [OF s(2) before])
  show "dict_get request ''typenames'' =
           (if typename_truthy (typename a) \<and> 2 \<le> major
            then Some (Str (join '','' (typename_list (typename a)))) else None) \<and>
         dict_get request ''typename'' =
           (if typename_truthy (typename a) \<and> major < 2
            then Some (Str (join '','' (typename_list (typename a)))) else None)"
    if "major_version self = Inr major"
    using typename_keys(2) [OF s(2) before that] eq by simp
  show "dict_get request ''typenames'' = None \<and> dict_get request ''typename'' = None"
    if "\<not> typename_truthy (typename a)"
    using typename_keys(3) [OF s(2) before that] eq by simp
qed

lemma request_maxfeatures_keys:
  assumes "getfeature_request E self a = Inr request"
    and "''count'' \<notin> stored_query_keys a" and "''maxfeatures'' \<notin> stored_query_keys a"
  shows "truthy_int (maxfeatures a) \<longrightarrow> (\<exists>major. major_version self = Inr major)"
    and "major_version self = Inr major \<Longrightarrow>
         dict_get request ''count'' =
           (if truthy_int (maxfeatures a) \<and> 2 \<le> major
            then Some (Str (str_int (the (maxfeatures a)))) else None) \<and>
         dict_get request ''maxfeatures'' =
           (if truthy_int (maxfeatures a) \<and> major < 2
            then Some (Str (str_int (the (maxfeatures a)))) else None)"
    and "\<not> truthy_int (maxfeatures a) \<Longrightarrow>
         dict_get request ''count'' = None \<and> dict_get request ''maxfeatures'' = None"
proof -
  let ?r0 = "[(''service'', Str ''WFS''), (''version'', Str (version self)),
              (''request'', Str ''GetFeature'')] :: 'a py_value dict"
  from assms(1) obtain r1 r2 r3 where
    s: "request_selector E self a ?r0 = Inr r1"
       "request_typename self a r1 = Inr r2"
       "request_maxfeatures self a (request_properties a r2) = Inr r3"
       "request = request_paging a r3"
    by (rule getfeature_request_steps)
  have before: "dict_get (request_properties a r2) k = None"
    if "k \<in> {''count'', ''maxfeatures''}" for k
  proof -
    have "dict_get (request_properties a r2) k = dict_get r2 k"
      using that by (auto simp: properties_other)
    also have "\<dots> = dict_get r1 k"
      using that by (auto intro: typename_other [OF s(2)])
    also have "\<dots> = dict_get ?r0 k"
      using that by (auto intro: selector_other [OF s(1)])
    also have "\<dots> = None"
      using that by (auto simp: dict_get_def)
    finally show ?thesis .
  qed
  have b: "dict_get (request_properties a r2) ''count'' = None"
    "dict_get (request_properties a r2) ''maxfeatures'' = None"
    using before by simp_all
  have eq: "dict_get request ''count'' = dict_get r3 ''count''"
    "dict_get request ''maxfeatures'' = dict_get r3 ''maxfeatures''"
    using assms(2,3) s(4) by (simp_all add: paging_other)
  show "truthy_int (maxfeatures a) \<longrightarrow> (\<exists>major. major_version self = Inr major)"
    by (rule maxfeatures_keys(1) [OF s(3) b])
  show "dict_get request ''count'' =
           (if truthy_int (maxfeatures a) \<and> 2 \<le> major
            then Some (Str (str_int (the (maxfeatures a)))) else None) \<and>
         dict_get request ''maxfeatures'' =
           (if truthy_int (maxfeatures a) \<and> major < 2
            then Some (Str (str_int (the (maxfeatures a)))) else None)"
    if "major_version self = Inr major"
    using maxfeatures_keys(2) [OF s(3) b that] eq by simp
  show "dict_get request ''count'' = None \<and> dict_get request ''maxfeatures'' = None"
    if "\<not> truthy_int (maxfeatures a)"
    using maxfeatures_keys(3) [OF s(3) b that] eq by simp
qed

lemma request_startindex_key:
  assumes "getfeature_request E self a = Inr request"
    and "''startindex'' \<notin> stored_query_keys a"
  shows "dict_get request ''startindex'' =
           (if truthy_int (startindex a) then Some (Str (str_int (the (startindex a)))) else None)"
proof -
  let ?r0 = "[(''service'', Str ''WFS''), (''version'', Str (version self)),
              (''request'', Str ''GetFeature'')] :: 'a py_value dict"
  from assms(1) obtain r1 r2 r3 where
    s: "request_selector E self a ?r0 = Inr r1"
       "request_typename self a r1 = Inr r2"
       "request_maxfeatures self a (request_properties a r2) = Inr r3"
       "request = request_paging a r3"
    by (rule getfeature_request_steps)
  have "dict_get r3 ''startindex'' = dict_get (request_properties a r2) ''startindex''"
    by (auto intro: maxfeatures_other [OF s(3)])
  also have "\<dots> = dict_get r2 ''startindex''"
    by (auto simp: properties_other)
  also have "\<dots> = dict_get r1 ''startindex''"
    by (auto intro: typename_other [OF s(2)])
  also have "\<dots> = dict_get ?r0 ''startindex''"
    by (auto intro: selector_other [OF s(1)])
  also have "\<dots> = None"
    by (auto simp: dict_get_def)
  finally show ?thesis
    using s(4) paging_startindex [OF assms(2)] by simp
qed

lemma POST_calls:
  assumes "outcome (getPOSTGetFeatureRequest E self a) = Inr r"
    and "document (getPOSTGetFeatureRequest E self a) = Some calls"
  shows "calls = post_document a (join '','' (typename_list (typename a))) []"
  using assms
  by (auto simp: getPOSTGetFeatureRequest_def create_post_request_def bind_def Let_def
      split: if_splits option.splits sum.splits)

lemma post_document_selectors:
  "filter is_selector (post_document a tn []) =
     (if truthy_list (featureid a) then [Set_featureid (the (featureid a))]
      else if truthy_list (bbox a) then [Set_bbox (the (bbox a))]
      else if truthy_list (filter_arg a) then [Set_filter (the (filter_arg a))]
      else [])"
  by (simp add: post_document_def Let_def)

subsection \<open>Selectors\<close>

text \<open>
  Claim C2, as amended. Whenever the GET builder returns a URL and the stored-query
  parameters it merges (lines 206 to 209) have no key \<open>featureid\<close>, \<open>bbox\<close> or
  \<open>query\<close>, the encoded request holds at most one of these three keys: \<open>featureid\<close>
  when \<open>featureid\<close> is non-empty, otherwise \<open>bbox\<close> when \<open>bbox\<close> is non-empty,
  otherwise \<open>query\<close> when \<open>filter\<close> is non-empty. Whenever the POST builder returns a
  serialised document, the only selector setter called on it is chosen in the same
  order.
\<close>

theorem selector_precedence:
  "(\<forall>url. getGETGetFeatureRequest E self a = Inr url \<and>
          stored_query_keys a \<inter> {''featureid'', ''bbox'', ''query''} = {} \<longrightarrow>
      (\<exists>u request.
         getfeature_url self (http_method a) = Inr (Some u) \<and>
         url = (if endswith u CHR ''?'' then u else u @ ''?'') @ urlencode (py_str E) request \<and>
         getfeature_request E self a = Inr request \<and>
         dict_get request ''featureid'' =
           (if truthy_list (featureid a)
            then Some (Str (join '','' (the (featureid a)))) else None) \<and>
         dict_get request ''bbox'' =
           (if \<not> truthy_list (featureid a) \<and> truthy_list (bbox a)
            then Some (Str (projr (getBBOXKVP E self (the (bbox a)) (typename a)))) else None) \<and>
         (\<not> truthy_list (featureid a) \<and> truthy_list (bbox a) \<longrightarrow>
            \<not> isl (getBBOXKVP E self (the (bbox a)) (typename a))) \<and>
         dict_get request ''query'' =
           (if \<not> truthy_list (featureid a) \<and> \<not> truthy_list (bbox a) \<and> truthy_list (filter_arg a)
            then Some (Str (the (filter_arg a))) else None))) \<and>
   (\<forall>r calls. outcome (getPOSTGetFeatureRequest E self a) = Inr r \<and>
              document (getPOSTGetFeatureRequest E self a) = Some calls \<longrightarrow>
      filter is_selector calls =
        (if truthy_list (featureid a) then [Set_featureid (the (featureid a))]
         else if truthy_list (bbox a) then [Set_bbox (the (bbox a))]
         else if truthy_list (filter_arg a) then [Set_filter (the (filter_arg a))]
         else []))"
proof (intro conjI allI impI)
  fix url
  assume h: "getGETGetFeatureRequest E self a = Inr url \<and>
          stored_query_keys a \<inter> {''featureid'', ''bbox'', ''query''} = {}"
  then obtain u request where
    e: "getfeature_url self (http_method a) = Inr (Some u)"
    and u: "url = (if endswith u CHR ''?'' then u else u @ ''?'') @ urlencode (py_str E) request"
    and r: "getfeature_request E self a = Inr request"
    by (auto elim: getGET_request)
  from h have k: "stored_query_keys a \<inter> {''featureid'', ''bbox'', ''query''} = {}"
    by simp
  show "\<exists>u request.
         getfeature_url self (http_method a) = Inr (Some u) \<and>
         url = (if endswith u CHR ''?'' then u else u @ ''?'') @ urlencode (py_str E) request \<and>
         getfeature_request E self a = Inr request \<and>
         dict_get request ''featureid'' =
           (if truthy_list (featureid a)
            then Some (Str (join '','' (the (featureid a)))) else None) \<and>
         dict_get request ''bbox'' =
           (if \<not> truthy_list (featureid a) \<and> truthy_list (bbox a)
            then Some (Str (projr (getBBOXKVP E self (the (bbox a)) (typename a)))) else None) \<and>
         (\<not> truthy_list (featureid a) \<and> truthy_list (bbox a) \<longrightarrow>
            \<not> isl (getBBOXKVP E self (the (bbox a)) (typename a))) \<and>
         dict_get request ''query'' =
           (if \<not> truthy_list (featureid a) \<and> \<not> truthy_list (bbox a) \<and> truthy_list (filter_arg a)
            then Some (Str (the (filter_arg a))) else None)"
    using e u r request_selectors [OF r k] by blast
next
  fix r calls
  assume "outcome (getPOSTGetFeatureRequest E self a) = Inr r \<and>
          document (getPOSTGetFeatureRequest E self a) = Some calls"
  then have "calls = post_document a (join '','' (typename_list (typename a))) []"
    by (auto intro: POST_calls)
  then show "filter is_selector calls =
        (if truthy_list (featureid a) then [Set_featureid (the (featureid a))]
         else if truthy_list (bbox a) then [Set_bbox (the (bbox a))]
         else if truthy_list (filter_arg a) then [Set_filter (the (filter_arg a))]
         else [])"
    by (simp only: post_document_selectors)
qed

theorem selector_precedence_witness:
  "getGETGetFeatureRequest example_externals (example_wfs ''2.0.0'') example_both
     = Inr ''http://example.org/wfs?service=WFS&version=2.0.0&request=GetFeature&featureid=f1&typenames=roads'' \<and>
   dict_get (projr (getfeature_request example_externals (example_wfs ''2.0.0'') example_both))
     ''featureid'' = Some (Str ''f1'') \<and>
   dict_get (projr (getfeature_request example_externals (example_wfs ''2.0.0'') example_both))
     ''bbox'' = None \<and>
   dict_get (projr (getfeature_request example_externals (example_wfs ''2.0.0'') example_both))
     ''query'' = None \<and>
   filter is_selector
     (the (document (getPOSTGetFeatureRequest example_externals (example_wfs ''2.0.0'')
        (example_both \<lparr> http_method := ''Post'' \<rparr>))))
     = [Set_featureid [''f1'']] \<and>
   getGETGetFeatureRequest example_externals (example_wfs ''2.0.0'') example_box
     = Inr ''http://example.org/wfs?service=WFS&version=2.0.0&request=GetFeature&bbox=2%2C1%2C4%2C3%2Curn%3Aogc%3Adef%3Acrs%3AEPSG%3A%3A4326&typenames=roads'' \<and>
   dict_get (projr (getfeature_request example_externals (example_wfs ''2.0.0'') example_box))
     ''featureid'' = None \<and>
   dict_get (projr (getfeature_request example_externals (example_wfs ''2.0.0'') example_box))
     ''bbox'' = Some (Str ''2,1,4,3,urn:ogc:def:crs:EPSG::4326'') \<and>
   dict_get (projr (getfeature_request example_externals (example_wfs ''2.0.0'') example_box))
     ''query'' = None"
proof -
  let ?self = "example_wfs ''2.0.0''"
  let ?p = "example_both \<lparr> http_method := ''Post'' \<rparr>"
  have kvp: "getBBOXKVP example_externals ?self [PInt 1, PInt 2, PInt 3, PInt 4]
               (TList [''roads'']) = Inr ''2,1,4,3,urn:ogc:def:crs:EPSG::4326''"
    by (simp add: getBBOXKVP_def bbox_srs_def bind_def example_wfs_def crs_4326_urn_def
        fmt5_def example_externals_def str_int_simps)
  have gb: "getGETGetFeatureRequest example_externals ?self example_box
     = Inr ''http://example.org/wfs?service=WFS&version=2.0.0&request=GetFeature&bbox=2%2C1%2C4%2C3%2Curn%3Aogc%3Adef%3Acrs%3AEPSG%3A%3A4326&typenames=roads''"
    by (simp add: getGETGetFeatureRequest_def example_getfeature_url request_defs
        default_args_def example_box_def bind_def endswith_def major_version_simps kvp)
       (simp add: example_wfs_def urlencode_defs)
  have kb: "stored_query_keys example_box \<inter> {''featureid'', ''bbox'', ''query''} = {}"
    by (simp add: stored_query_keys_def example_box_def default_args_def)
  have ab: "featureid example_box = None" "bbox example_box = Some [PInt 1, PInt 2, PInt 3, PInt 4]"
    "typename example_box = TList [''roads'']"
    by (simp_all add: example_box_def default_args_def)
  from selector_precedence [of example_externals ?self example_box] gb kb
  obtain rb where
    rb: "getfeature_request example_externals ?self example_box = Inr rb"
      "dict_get rb ''featureid'' =
         (if truthy_list (featureid example_box)
          then Some (Str (join '','' (the (featureid example_box)))) else None)"
      "dict_get rb ''bbox'' =
         (if \<not> truthy_list (featureid example_box) \<and> truthy_list (bbox example_box)
          then Some (Str (projr (getBBOXKVP example_externals ?self (the (bbox example_box))
                 (typename example_box)))) else None)"
      "dict_get rb ''query'' =
         (if \<not> truthy_list (featureid example_box) \<and> \<not> truthy_list (bbox example_box) \<and>
             truthy_list (filter_arg example_box)
          then Some (Str (the (filter_arg example_box))) else None)"
    by blast
  have b: "dict_get rb ''featureid'' = None"
    "dict_get rb ''bbox'' = Some (Str ''2,1,4,3,urn:ogc:def:crs:EPSG::4326'')"
    "dict_get rb ''query'' = None"
    using rb(2,3,4) by (simp_all add: ab kvp)
  have g: "getGETGetFeatureRequest example_externals ?self example_both
     = Inr ''http://example.org/wfs?service=WFS&version=2.0.0&request=GetFeature&featureid=f1&typenames=roads''"
    by (simp add: getGETGetFeatureRequest_def example_getfeature_url request_defs
        default_args_def example_both_def bind_def endswith_def major_version_simps)
       (simp add: example_wfs_def urlencode_defs)
  have k: "stored_query_keys example_both \<inter> {''featureid'', ''bbox'', ''query''} = {}"
    by (simp add: stored_query_keys_def example_both_def default_args_def)
  from selector_precedence [of example_externals ?self example_both] g k
  obtain request where
    r: "getfeature_request example_externals ?self example_both = Inr request"
      "dict_get request ''featureid'' =
         (if truthy_list (featureid example_both)
          then Some (Str (join '','' (the (featureid example_both)))) else None)"
      "dict_get request ''bbox'' =
         (if \<not> truthy_list (featureid example_both) \<and> truthy_list (bbox example_both)
          then Some (Str (projr (getBBOXKVP example_externals ?self (the (bbox example_both))
                 (typename example_both)))) else None)"
      "dict_get request ''query'' =
         (if \<not> truthy_list (featureid example_both) \<and> \<not> truthy_list (bbox example_both) \<and>
             truthy_list (filter_arg example_both)
          then Some (Str (the (filter_arg example_both))) else None)"
    by blast
  have f: "featureid example_both = Some [''f1'']"
    by (simp add: example_both_def default_args_def)
  have url: "getfeature_url ?self (http_method ?p) = Inr (Some ''http://example.org/wfs?'')"
    by (simp add: example_getfeature_url)
  have tn: "typename_truthy (typename ?p)"
    by (simp add: example_both_def default_args_def)
  have v: "version ?self = ''2.0'' \<or> version ?self = ''2.0.0''"
    by (simp add: example_wfs_def)
  have fp: "featureid ?p = Some [''f1'']"
    by (simp add: example_both_def default_args_def)
  have o: "\<exists>r. outcome (getPOSTGetFeatureRequest example_externals ?self ?p) = Inr r"
    and d: "\<exists>calls. document (getPOSTGetFeatureRequest example_externals ?self ?p) = Some calls"
    by (simp_all add: POST_document [OF url tn v])
  from o d selector_precedence [of example_externals ?self ?p]
  have "filter is_selector (the (document (getPOSTGetFeatureRequest example_externals ?self ?p)))
      = (if truthy_list (featureid ?p) then [Set_featureid (the (featureid ?p))]
         else if truthy_list (bbox ?p) then [Set_bbox (the (bbox ?p))]
         else if truthy_list (filter_arg ?p) then [Set_filter (the (filter_arg ?p))]
         else [])"
    by fastforce
  then have p: "filter is_selector
      (the (document (getPOSTGetFeatureRequest example_externals ?self ?p))) = [Set_featureid [''f1'']]"
    by (simp only: fp) simp
  from g r f p gb rb(1) b show ?thesis by simp
qed

text \<open>
  Claim C2 as stated fails when a stored-query parameter is itself named \<open>bbox\<close>:
  with \<open>featureid\<close> and \<open>bbox\<close> both given, the URL has a \<open>featureid\<close> and a \<open>bbox\<close>
  parameter.
\<close>

theorem selector_injected_counterexample:
  "getGETGetFeatureRequest example_externals (example_wfs ''2.0.0'')
     ((default_args ''Get'')
        \<lparr> bbox := Some [PInt 0, PInt 0, PInt 1, PInt 1], featureid := Some [''f1''],
          storedQueryID := Some ''q'', storedQueryParams := Some [(''bbox'', Str ''0,0,1,1'')] \<rparr>)
   = Inr ''http://example.org/wfs?service=WFS&version=2.0.0&request=GetFeature&featureid=f1&storedQuery_id=q&bbox=0%2C0%2C1%2C1''"
  by (simp add: getGETGetFeatureRequest_def example_getfeature_url request_defs default_args_def
      bind_def endswith_def urlencode_defs)
     (simp add: example_wfs_def urlencode_defs)

subsection \<open>Parameter names\<close>

text \<open>
  Claim C4, as amended. Whenever the GET builder returns a URL and the stored-query
  parameters it merges have no key \<open>typenames\<close>, \<open>typename\<close>, \<open>count\<close> or
  \<open>maxfeatures\<close>: the major version is an integer when a feature type list or a
  non-zero \<open>maxfeatures\<close> is given; the list is under \<open>typenames\<close> and \<open>maxfeatures\<close>
  under \<open>count\<close> when the major version is at least 2, under \<open>typename\<close> and
  \<open>maxfeatures\<close> otherwise; and the other name of each is not a key of the request.
\<close>

theorem parameter_vocabulary:
  "\<forall>url. getGETGetFeatureRequest E self a = Inr url \<and>
         stored_query_keys a \<inter> {''typenames'', ''typename'', ''count'', ''maxfeatures''} = {} \<longrightarrow>
     (\<exists>u request.
        getfeature_url self (http_method a) = Inr (Some u) \<and>
        url = (if endswith u CHR ''?'' then u else u @ ''?'') @ urlencode (py_str E) request \<and>
        getfeature_request E self a = Inr request \<and>
        (typename_truthy (typename a) \<or> truthy_int (maxfeatures a) \<longrightarrow>
           (\<exists>major. major_version self = Inr major)) \<and>
        (\<forall>major. major_version self = Inr major \<longrightarrow>
           dict_get request ''typenames'' =
             (if typename_truthy (typename a) \<and> 2 \<le> major
              then Some (Str (join '','' (typename_list (typename a)))) else None) \<and>
           dict_get request ''typename'' =
             (if typename_truthy (typename a) \<and> major < 2
              then Some (Str (join '','' (typename_list (typename a)))) else None) \<and>
           dict_get request ''count'' =
             (if truthy_int (maxfeatures a) \<and> 2 \<le> major
              then Some (Str (str_int (the (maxfeatures a)))) else None) \<and>
           dict_get request ''maxfeatures'' =
             (if truthy_int (maxfeatures a) \<and> major < 2
              then Some (Str (str_int (the (maxfeatures a)))) else None)) \<and>
        (\<not> typename_truthy (typename a) \<longrightarrow>
           dict_get request ''typenames'' = None \<and> dict_get request ''typename'' = None) \<and>
        (\<not> truthy_int (maxfeatures a) \<longrightarrow>
           dict_get request ''count'' = None \<and> dict_get request ''maxfeatures'' = None))"
proof (intro allI impI)
  fix url
  assume h: "getGETGetFeatureRequest E self a = Inr url \<and>
         stored_query_keys a \<inter> {''typenames'', ''typename'', ''count'', ''maxfeatures''} = {}"
  then obtain u request where
    e: "getfeature_url self (http_method a) = Inr (Some u)"
    and u: "url = (if endswith u CHR ''?'' then u else u @ ''?'') @ urlencode (py_str E) request"
    and r: "getfeature_request E self a = Inr request"
    by (auto elim: getGET_request)
  from h have k: "''typenames'' \<notin> stored_query_keys a" "''typename'' \<notin> stored_query_keys a"
    "''count'' \<notin> stored_query_keys a" "''maxfeatures'' \<notin> stored_query_keys a"
    by auto
  note t = request_typename_keys [OF r k(1,2)]
  note m = request_maxfeatures_keys [OF r k(3,4)]
  have "(typename_truthy (typename a) \<or> truthy_int (maxfeatures a) \<longrightarrow>
           (\<exists>major. major_version self = Inr major)) \<and>
        (\<forall>major. major_version self = Inr major \<longrightarrow>
           dict_get request ''typenames'' =
             (if typename_truthy (typename a) \<and> 2 \<le> major
              then Some (Str (join '','' (typename_list (typename a)))) else None) \<and>
           dict_get request ''typename'' =
             (if typename_truthy (typename a) \<and> major < 2
              then Some (Str (join '','' (typename_list (typename a)))) else None) \<and>
           dict_get request ''count'' =
             (if truthy_int (maxfeatures a) \<and> 2 \<le> major
              then Some (Str (str_int (the (maxfeatures a)))) else None) \<and>
           dict_get request ''maxfeatures'' =
             (if truthy_int (maxfeatures a) \<and> major < 2
              then Some (Str (str_int (the (maxfeatures a)))) else None)) \<and>
        (\<not> typename_truthy (typename a) \<longrightarrow>
           dict_get request ''typenames'' = None \<and> dict_get request ''typename'' = None) \<and>
        (\<not> truthy_int (maxfeatures a) \<longrightarrow>
           dict_get request ''count'' = None \<and> dict_get request ''maxfeatures'' = None)"
    using t(1) t(2) t(3) m(1) m(2) m(3) by blast
  with e u r show "\<exists>u request.
        getfeature_url self (http_method a) = Inr (Some u) \<and>
        url = (if endswith u CHR ''?'' then u else u @ ''?'') @ urlencode (py_str E) request \<and>
        getfeature_request E self a = Inr request \<and>
        (typename_truthy (typename a) \<or> truthy_int (maxfeatures a) \<longrightarrow>
           (\<exists>major. major_version self = Inr major)) \<and>
        (\<forall>major. major_version self = Inr major \<longrightarrow>
           dict_get request ''typenames'' =
             (if typename_truthy (typename a) \<and> 2 \<le> major
              then Some (Str (join '','' (typename_list (typename a)))) else None) \<and>
           dict_get request ''typename'' =
             (if typename_truthy (typename a) \<and> major < 2
              then Some (Str (join '','' (typename_list (typename a)))) else None) \<and>
           dict_get request ''count'' =
             (if truthy_int (maxfeatures a) \<and> 2 \<le> major
              then Some (Str (str_int (the (maxfeatures a)))) else None) \<and>
           dict_get request ''maxfeatures'' =
             (if truthy_int (maxfeatures a) \<and> major < 2
              then Some (Str (str_int (the (maxfeatures a)))) else None)) \<and>
        (\<not> typename_truthy (typename a) \<longrightarrow>
           dict_get request ''typenames'' = None \<and> dict_get request ''typename'' = None) \<and>
        (\<not> truthy_int (maxfeatures a) \<longrightarrow>
           dict_get request ''count'' = None \<and> dict_get request ''maxfeatures'' = None)"
    by blast
qed

theorem parameter_vocabulary_witness:
  "getGETGetFeatureRequest example_externals (example_wfs ''2.0.0'') example_paged
     = Inr ''http://example.org/wfs?service=WFS&version=2.0.0&request=GetFeature&typenames=roads&count=50'' \<and>
   dict_get (projr (getfeature_request example_externals (example_wfs ''2.0.0'') example_paged))
     ''typenames'' = Some (Str ''roads'') \<and>
   dict_get (projr (getfeature_request example_externals (example_wfs ''2.0.0'') example_paged))
     ''typename'' = None \<and>
   dict_get (projr (getfeature_request example_externals (example_wfs ''2.0.0'') example_paged))
     ''count'' = Some (Str ''50'') \<and>
   dict_get (projr (getfeature_request example_externals (example_wfs ''2.0.0'') example_paged))
     ''maxfeatures'' = None \<and>
   getGETGetFeatureRequest example_externals (example_wfs ''1.1.0'') example_paged
     = Inr ''http://example.org/wfs?service=WFS&version=1.1.0&request=GetFeature&typename=roads&maxfeatures=50'' \<and>
   dict_get (projr (getfeature_request example_externals (example_wfs ''1.1.0'') example_paged))
     ''typenames'' = None \<and>
   dict_get (projr (getfeature_request example_externals (example_wfs ''1.1.0'') example_paged))
     ''typename'' = Some (Str ''roads'') \<and>
   dict_get (projr (getfeature_request example_externals (example_wfs ''1.1.0'') example_paged))
     ''count'' = None \<and>
   dict_get (projr (getfeature_request example_externals (example_wfs ''1.1.0'') example_paged))
     ''maxfeatures'' = Some (Str ''50'') \<and>
   getGETGetFeatureRequest example_externals (example_wfs ''2.0.0'') (default_args ''Get'')
     = Inr ''http://example.org/wfs?service=WFS&version=2.0.0&request=GetFeature'' \<and>
   dict_get (projr (getfeature_request example_externals (example_wfs ''2.0.0'')
     (default_args ''Get''))) ''typenames'' = None \<and>
   dict_get (projr (getfeature_request example_externals (example_wfs ''2.0.0'')
     (default_args ''Get''))) ''typename'' = None \<and>
   dict_get (projr (getfeature_request example_externals (example_wfs ''2.0.0'')
     (default_args ''Get''))) ''count'' = None \<and>
   dict_get (projr (getfeature_request example_externals (example_wfs ''2.0.0'')
     (default_args ''Get''))) ''maxfeatures'' = None"
proof -
  let ?d = "default_args ''Get'' :: pyval getfeature_args"
  have g0: "getGETGetFeatureRequest example_externals (example_wfs ''2.0.0'') ?d
     = Inr ''http://example.org/wfs?service=WFS&version=2.0.0&request=GetFeature''"
    by (simp add: getGETGetFeatureRequest_def example_getfeature_url request_defs
        default_args_def bind_def endswith_def)
       (simp add: example_wfs_def urlencode_defs)
  have k0: "stored_query_keys ?d \<inter> {''typenames'', ''typename'', ''count'', ''maxfeatures''} = {}"
    by (simp add: stored_query_keys_def default_args_def)
  have a0: "\<not> typename_truthy (typename ?d)" "\<not> truthy_int (maxfeatures ?d)"
    by (simp_all add: default_args_def)
  from parameter_vocabulary [of example_externals "example_wfs ''2.0.0''" ?d] g0 k0 a0
  obtain r0 where
    r0: "getfeature_request example_externals (example_wfs ''2.0.0'') ?d = Inr r0"
      "dict_get r0 ''typenames'' = None" "dict_get r0 ''typename'' = None"
      "dict_get r0 ''count'' = None" "dict_get r0 ''maxfeatures'' = None"
    by blast
  have g2: "getGETGetFeatureRequest example_externals (example_wfs ''2.0.0'') example_paged
     = Inr ''http://example.org/wfs?service=WFS&version=2.0.0&request=GetFeature&typenames=roads&count=50''"
    by (simp add: getGETGetFeatureRequest_def example_getfeature_url request_defs
        default_args_def example_paged_def bind_def endswith_def major_version_simps
        str_int_simps)
       (simp add: example_wfs_def urlencode_defs)
  have g1: "getGETGetFeatureRequest example_externals (example_wfs ''1.1.0'') example_paged
     = Inr ''http://example.org/wfs?service=WFS&version=1.1.0&request=GetFeature&typename=roads&maxfeatures=50''"
    by (simp add: getGETGetFeatureRequest_def example_getfeature_url request_defs
        default_args_def example_paged_def bind_def endswith_def major_version_simps
        str_int_simps)
       (simp add: example_wfs_def urlencode_defs)
  have k: "stored_query_keys example_paged \<inter>
             {''typenames'', ''typename'', ''count'', ''maxfeatures''} = {}"
    by (simp add: stored_query_keys_def example_paged_def default_args_def)
  have a: "typename_truthy (typename example_paged)" "truthy_int (maxfeatures example_paged)"
    "typename_list (typename example_paged) = [''roads'']"
    "str_int (the (maxfeatures example_paged)) = ''50''"
    by (simp_all add: example_paged_def default_args_def str_int_simps)
  from parameter_vocabulary [of example_externals "example_wfs ''2.0.0''" example_paged] g2 k
    major_version_simps(1)
  obtain r2 where
    r2: "getfeature_request example_externals (example_wfs ''2.0.0'') example_paged = Inr r2"
      "dict_get r2 ''typenames'' =
         (if typename_truthy (typename example_paged) \<and> (2::int) \<le> 2
          then Some (Str (join '','' (typename_list (typename example_paged)))) else None)"
      "dict_get r2 ''typename'' =
         (if typename_truthy (typename example_paged) \<and> (2::int) < 2
          then Some (Str (join '','' (typename_list (typename example_paged)))) else None)"
      "dict_get r2 ''count'' =
         (if truthy_int (maxfeatures example_paged) \<and> (2::int) \<le> 2
          then Some (Str (str_int (the (maxfeatures example_paged)))) else None)"
      "dict_get r2 ''maxfeatures'' =
         (if truthy_int (maxfeatures example_paged) \<and> (2::int) < 2
          then Some (Str (str_int (the (maxfeatures example_paged)))) else None)"
    by blast
  from parameter_vocabulary [of example_externals "example_wfs ''1.1.0''" example_paged] g1 k
    major_version_simps(2)
  obtain r1 where
    r1: "getfeature_request example_externals (example_wfs ''1.1.0'') example_paged = Inr r1"
      "dict_get r1 ''typenames'' =
         (if typename_truthy (typename example_paged) \<and> (2::int) \<le> 1
          then Some (Str (join '','' (typename_list (typename example_paged)))) else None)"
      "dict_get r1 ''typename'' =
         (if typename_truthy (typename example_paged) \<and> (1::int) < 2
          then Some (Str (join '','' (typename_list (typename example_paged)))) else None)"
      "dict_get r1 ''count'' =
         (if truthy_int (maxfeatures example_paged) \<and> (2::int) \<le> 1
          then Some (Str (str_int (the (maxfeatures example_paged)))) else None)"
      "dict_get r1 ''maxfeatures'' =
         (if truthy_int (maxfeatures example_paged) \<and> (1::int) < 2
          then Some (Str (str_int (the (maxfeatures example_paged)))) else None)"
    by blast
  from g2 g1 r2 r1 a g0 r0 show ?thesis by simp
qed

text \<open>
  Claim C4 as stated fails when stored-query parameters are named \<open>typename\<close> and
  \<open>maxfeatures\<close>: under version 2.0.0 both names of each parameter are in the URL.
\<close>

theorem vocabulary_injected_counterexample:
  "getGETGetFeatureRequest example_externals (example_wfs ''2.0.0'')
     ((default_args ''Get'')
        \<lparr> typename := TList [''roads''], maxfeatures := Some 50,
          storedQueryID := Some ''q'',
          storedQueryParams := Some [(''typename'', Str ''rivers''), (''maxfeatures'', Str ''7'')] \<rparr>)
   = Inr ''http://example.org/wfs?service=WFS&version=2.0.0&request=GetFeature&typenames=roads&count=50&storedQuery_id=q&typename=rivers&maxfeatures=7''"
  by (simp add: getGETGetFeatureRequest_def example_getfeature_url request_defs default_args_def
      bind_def endswith_def urlencode_defs major_version_simps str_int_simps)
     (simp add: example_wfs_def urlencode_defs)

subsection \<open>Zero\<close>

lemma request_maxfeatures_zero:
  "getfeature_request E self (a \<lparr> maxfeatures := Some 0 \<rparr>) =
   getfeature_request E self (a \<lparr> maxfeatures := None \<rparr>)"
proof -
  have 1: "request_selector E self (a \<lparr> maxfeatures := x \<rparr>) r = request_selector E self a r"
    for x r
    by (simp add: request_selector_def cong: if_cong)
  have 2: "request_typename self (a \<lparr> maxfeatures := x \<rparr>) r = request_typename self a r"
    for x r
    by (simp add: request_typename_def cong: if_cong)
  have 3: "request_properties (a \<lparr> maxfeatures := x \<rparr>) r = request_properties a r"
    for x r
    by (simp add: request_properties_def cong: if_cong)
  have 4: "request_maxfeatures self (a \<lparr> maxfeatures := Some 0 \<rparr>) r = Inr r"
    "request_maxfeatures self (a \<lparr> maxfeatures := None \<rparr>) r = Inr r"
    for r
    by (simp_all add: request_maxfeatures_def)
  have 5: "request_paging (a \<lparr> maxfeatures := x \<rparr>) r = request_paging a r"
    for x r
    by (simp add: request_paging_def cong: if_cong)
  show ?thesis
    by (simp only: getfeature_request_def 1 2 3 4 5)
qed

lemma request_startindex_zero:
  "getfeature_request E self (a \<lparr> startindex := Some 0 \<rparr>) =
   getfeature_request E self (a \<lparr> startindex := None \<rparr>)"
proof -
  have 1: "request_selector E self (a \<lparr> startindex := x \<rparr>) r = request_selector E self a r"
    for x r
    by (simp add: request_selector_def cong: if_cong)
  have 2: "request_typename self (a \<lparr> startindex := x \<rparr>) r = request_typename self a r"
    for x r
    by (simp add: request_typename_def cong: if_cong)
  have 3: "request_properties (a \<lparr> startindex := x \<rparr>) r = request_properties a r"
    for x r
    by (simp add: request_properties_def cong: if_cong)
  have 4: "request_maxfeatures self (a \<lparr> startindex := x \<rparr>) r = request_maxfeatures self a r"
    for x r
    by (simp add: request_maxfeatures_def cong: if_cong)
  have 5: "request_paging (a \<lparr> startindex := Some 0 \<rparr>) r =
           request_paging (a \<lparr> startindex := None \<rparr>) r"
    for r
    by (simp add: request_paging_def cong: if_cong)
  show ?thesis
    by (simp only: getfeature_request_def 1 2 3 4 5)
qed

text \<open>
  Claim C10, as amended. The GET builder returns the same result for \<open>maxfeatures=0\<close>
  as for \<open>maxfeatures=None\<close>, and for \<open>startindex=0\<close> as for \<open>startindex=None\<close>. When
  it returns a URL and the stored-query parameters it merges have no key \<open>count\<close>,
  \<open>maxfeatures\<close> or \<open>startindex\<close>, a false \<open>maxfeatures\<close> leaves the request without
  \<open>count\<close> and \<open>maxfeatures\<close>, and a false \<open>startindex\<close> leaves it without
  \<open>startindex\<close>.
\<close>

theorem zero_is_absent:
  "getGETGetFeatureRequest E self (a \<lparr> maxfeatures := Some 0 \<rparr>) =
     getGETGetFeatureRequest E self (a \<lparr> maxfeatures := None \<rparr>) \<and>
   getGETGetFeatureRequest E self (a \<lparr> startindex := Some 0 \<rparr>) =
     getGETGetFeatureRequest E self (a \<lparr> startindex := None \<rparr>) \<and>
   (\<forall>url. getGETGetFeatureRequest E self a = Inr url \<and>
      stored_query_keys a \<inter> {''count'', ''maxfeatures'', ''startindex''} = {} \<longrightarrow>
      (\<exists>u request.
         getfeature_url self (http_method a) = Inr (Some u) \<and>
         url = (if endswith u CHR ''?'' then u else u @ ''?'') @ urlencode (py_str E) request \<and>
         getfeature_request E self a = Inr request \<and>
         (\<not> truthy_int (maxfeatures a) \<longrightarrow>
            dict_get request ''count'' = None \<and> dict_get request ''maxfeatures'' = None) \<and>
         (\<not> truthy_int (startindex a) \<longrightarrow> dict_get request ''startindex'' = None)))"
proof (intro conjI allI impI)
  show "getGETGetFeatureRequest E self (a \<lparr> maxfeatures := Some 0 \<rparr>) =
     getGETGetFeatureRequest E self (a \<lparr> maxfeatures := None \<rparr>)"
    by (simp add: getGETGetFeatureRequest_def request_maxfeatures_zero)
  show "getGETGetFeatureRequest E self (a \<lparr> startindex := Some 0 \<rparr>) =
     getGETGetFeatureRequest E self (a \<lparr> startindex := None \<rparr>)"
    by (simp add: getGETGetFeatureRequest_def request_startindex_zero)
next
  fix url
  assume h: "getGETGetFeatureRequest E self a = Inr url \<and>
      stored_query_keys a \<inter> {''count'', ''maxfeatures'', ''startindex''} = {}"
  then obtain u request where
    e: "getfeature_url self (http_method a) = Inr (Some u)"
    and u: "url = (if endswith u CHR ''?'' then u else u @ ''?'') @ urlencode (py_str E) request"
    and r: "getfeature_request E self a = Inr request"
    by (auto elim: getGET_request)
  from h have k: "''count'' \<notin> stored_query_keys a" "''maxfeatures'' \<notin> stored_query_keys a"
    "''startindex'' \<notin> stored_query_keys a"
    by auto
  have "(\<not> truthy_int (maxfeatures a) \<longrightarrow>
            dict_get request ''count'' = None \<and> dict_get request ''maxfeatures'' = None) \<and>
         (\<not> truthy_int (startindex a) \<longrightarrow> dict_get request ''startindex'' = None)"
    using request_maxfeatures_keys(3) [OF r k(1,2)] request_startindex_key [OF r k(3)]
    by simp
  with e u r show "\<exists>u request.
         getfeature_url self (http_method a) = Inr (Some u) \<and>
         url = (if endswith u CHR ''?'' then u else u @ ''?'') @ urlencode (py_str E) request \<and>
         getfeature_request E self a = Inr request \<and>
         (\<not> truthy_int (maxfeatures a) \<longrightarrow>
            dict_get request ''count'' = None \<and> dict_get request ''maxfeatures'' = None) \<and>
         (\<not> truthy_int (startindex a) \<longrightarrow> dict_get request ''startindex'' = None)"
    by blast
qed


theorem zero_is_absent_witness:
  "getGETGetFeatureRequest example_externals (example_wfs ''2.0.0'')
     ((default_args ''Get'') \<lparr> typename := TList [''roads''], maxfeatures := Some 0 \<rparr>)
     = Inr ''http://example.org/wfs?service=WFS&version=2.0.0&request=GetFeature&typenames=roads'' \<and>
   getGETGetFeatureRequest example_externals (example_wfs ''2.0.0'')
     ((default_args ''Get'') \<lparr> typename := TList [''roads''], startindex := Some 0 \<rparr>)
     = Inr ''http://example.org/wfs?service=WFS&version=2.0.0&request=GetFeature&typenames=roads'' \<and>
   dict_get (projr (getfeature_request example_externals (example_wfs ''2.0.0'') example_zero))
     ''count'' = None \<and>
   dict_get (projr (getfeature_request example_externals (example_wfs ''2.0.0'') example_zero))
     ''maxfeatures'' = None \<and>
   dict_get (projr (getfeature_request example_externals (example_wfs ''2.0.0'') example_zero))
     ''startindex'' = None"
proof -
  let ?self = "example_wfs ''2.0.0''"
  let ?a = "(default_args ''Get'') \<lparr> typename := TList [''roads''] \<rparr> :: pyval getfeature_args"
  let ?url = "''http://example.org/wfs?service=WFS&version=2.0.0&request=GetFeature&typenames=roads''"
  have m: "?a \<lparr> maxfeatures := None \<rparr> = ?a" and s: "?a \<lparr> startindex := None \<rparr> = ?a"
    by (simp_all add: default_args_def)
  have g: "getGETGetFeatureRequest example_externals ?self ?a = Inr ?url"
    by (simp add: getGETGetFeatureRequest_def example_getfeature_url request_defs
        default_args_def bind_def endswith_def major_version_simps)
       (simp add: example_wfs_def urlencode_defs)
  from zero_is_absent [of example_externals ?self ?a] m s g
  have 1: "getGETGetFeatureRequest example_externals ?self (?a \<lparr> maxfeatures := Some 0 \<rparr>) = Inr ?url"
    and 2: "getGETGetFeatureRequest example_externals ?self (?a \<lparr> startindex := Some 0 \<rparr>) = Inr ?url"
    by simp_all
  have z: "getGETGetFeatureRequest example_externals ?self example_zero = Inr ?url"
    by (simp add: getGETGetFeatureRequest_def example_getfeature_url request_defs
        default_args_def example_zero_def bind_def endswith_def major_version_simps)
       (simp add: example_wfs_def urlencode_defs)
  have k: "stored_query_keys example_zero \<inter> {''count'', ''maxfeatures'', ''startindex''} = {}"
    by (simp add: stored_query_keys_def example_zero_def default_args_def)
  have f: "\<not> truthy_int (maxfeatures example_zero)" "\<not> truthy_int (startindex example_zero)"
    by (simp_all add: example_zero_def default_args_def)
  from zero_is_absent [of example_externals ?self example_zero] z k f
  obtain r where
    r: "getfeature_request example_externals ?self example_zero = Inr r"
      "dict_get r ''count'' = None" "dict_get r ''maxfeatures'' = None"
      "dict_get r ''startindex'' = None"
    by blast
  from 1 2 r show ?thesis by simp
qed

text \<open>
  Claim C10 as stated fails when stored-query parameters are named \<open>count\<close> and
  \<open>startindex\<close>: with \<open>maxfeatures=0\<close> and \<open>startindex=0\<close> the URL has both.
\<close>

theorem zero_injected_counterexample:
  "getGETGetFeatureRequest example_externals (example_wfs ''2.0.0'')
     ((default_args ''Get'')
        \<lparr> typename := TList [''roads''], maxfeatures := Some 0, startindex := Some 0,
          storedQueryID := Some ''q'',
          storedQueryParams := Some [(''count'', Str ''5''), (''startindex'', Str ''10'')] \<rparr>)
   = Inr ''http://example.org/wfs?service=WFS&version=2.0.0&request=GetFeature&typenames=roads&storedQuery_id=q&count=5&startindex=10''"
  by (simp add: getGETGetFeatureRequest_def example_getfeature_url request_defs default_args_def
      bind_def endswith_def urlencode_defs major_version_simps str_int_simps)
     (simp add: example_wfs_def urlencode_defs)

end
